theory Spec2Isabelle
  imports Complex_Main
begin

section \<open>The carousel controllers of kanatal-homestay.js\<close>

text \<open>
  The file defines two classes, \<open>RoomsCarousel\<close> and \<open>AmenitiesCarousel\<close>. Each keeps
  an index, listens to clicks, scroll, touch, resize (and, for the rooms, key) events, and
  writes to the document: it scrolls the container, marks indicator dots, disables arrows.

  An index is an \<open>int\<close>, a pixel measure that may be fractional is a \<open>rat\<close>, and
  \<open>Math.round x\<close> is \<open>round x\<close>, that is \<open>\<lfloor>x + 1/2\<rfloor>\<close>. The integers of the
  document (widths, counts) are exact in a double. \<open>syncWithScroll\<close> divides and
  multiplies fractions, and is given twice: with every quotient and product rounded to
  binary64 as the engine rounds it, which is the version the scroll listener runs and the
  one that gives the value of the index; and with exact quotients and products, an
  idealisation for the bound of the clamp and for the round trip of a target.

  An exception leaves the fields as they were at the \<open>throw\<close>, so a handler returns a
  \<open>completion\<close>: the state, and the error when one was thrown.
\<close>

subsection \<open>Errors and completions\<close>

datatype error = TypeError

datatype 's completion = Normal 's | Thrown error 's

fun state_of :: "'s completion \<Rightarrow> 's" where
  "state_of (Normal s) = s"
| "state_of (Thrown e s) = s"

fun threw :: "'s completion \<Rightarrow> bool" where
  "threw (Normal s) = False"
| "threw (Thrown e s) = True"

text \<open>Sequencing of statements: what follows a \<open>throw\<close> does not run.\<close>

fun and_then :: "'s completion \<Rightarrow> ('s \<Rightarrow> 's completion) \<Rightarrow> 's completion" where
  "and_then (Normal s) f = f s"
| "and_then (Thrown e s) f = Thrown e s"

subsection \<open>The document as the handlers read and write it\<close>

text \<open>
  What a handler reads from the document and the window while it runs: the clock (for
  \<open>setTimeout\<close>), the window's size, the \<open>offsetWidth\<close> of each card of the carousel
  in document order, the container's scroll geometry and its bounding rectangle. Each
  handler is given the document as it is when the handler runs; the card count that
  \<open>init\<close> read stays in \<open>totalRooms\<close> or \<open>totalCards\<close>, as in the code.
\<close>

record dom =
  now :: nat
  innerWidth :: int
  innerHeight :: int
  cardWidths :: "nat list"
  scrollLeft :: rat
  scrollWidth :: int
  clientWidth :: int
  rectTop :: rat
  rectBottom :: rat

text \<open>
  An indicator: a \<open>button.carousel-dot\<close> with its \<open>active\<close> class and, when
  \<open>createDots\<close> made it, the index its click listener passes to \<open>goToSlide\<close>.
\<close>

record dot =
  active :: bool
  onclick :: "nat option"

text \<open>The calls a controller makes outwards, in the order it makes them.\<close>

datatype call = ScrollTo int | UpdateUI | SetTimeout nat

text \<open>The variables closed over by the listeners of \<open>addSwipeSupport\<close>.\<close>

record swipe_vars =
  startX :: rat
  startY :: rat
  currentX :: rat
  currentY :: rat
  isDragging :: bool
  isHorizontalSwipe :: bool

text \<open>
  The fields the two classes share. An element that the constructor looked up is
  \<open>None\<close> when the document has none; an arrow is given by its \<open>disabled\<close>
  property. \<open>timers\<close> holds the due times of the pending callbacks of
  \<open>updateCarousel\<close>, oldest first; \<open>calls\<close> is the trace of outward calls.
\<close>

record CarouselBase =
  carousel :: bool
  leftArrow :: "bool option"
  rightArrow :: "bool option"
  currentIndex :: int
  isScrolling :: bool
  isMobile :: bool
  swipe :: swipe_vars
  timers :: "nat list"
  calls :: "call list"

record RoomsCarousel = CarouselBase +
  dotsContainer :: "dot list option"
  totalRooms :: nat

record AmenitiesCarousel = CarouselBase +
  totalCards :: nat

text \<open>The events of the page that reach a listener of either class.\<close>

datatype target =
    RoomsLeftArrow | RoomsRightArrow | RoomsDot nat | RoomsCarouselEl
  | AmenitiesLeftArrow | AmenitiesRightArrow | AmenitiesCarouselEl

datatype event =
    Click target
  | Scroll target
  | TouchStart target rat rat
  | TouchMove target rat rat
  | TouchEnd target rat
  | KeyDown string
  | Resize

subsection \<open>Binary64 arithmetic\<close>

text \<open>
  A JavaScript number is an IEEE 754 binary64 value, and \<open>/\<close> and \<open>*\<close> round the
  exact result to the nearest such value, ties to the even significand. \<open>bits n\<close> is
  the number of binary digits of \<open>n\<close>; \<open>binary_exponent y\<close> is the \<open>e\<close> with
  \<open>2^e \<le> y < 2^(e+1)\<close> for \<open>y > 0\<close>; \<open>binary64 x\<close> rounds \<open>x\<close> to 53 significant
  bits. Overflow and subnormal numbers are left out: pixel measures and their quotients
  are far from both.
\<close>

function bits :: "int \<Rightarrow> nat" where
  "bits n = (if n \<le> 0 then 0 else Suc (bits (n div 2)))"
  by pat_completeness auto
termination
  by (relation "measure nat") auto

declare bits.simps [simp del]

definition binary_exponent :: "rat \<Rightarrow> int" where
  "binary_exponent y =
     (if 1 \<le> y then int (bits \<lfloor>y\<rfloor>) - 1
      else
        let z = 1 / y;
            j = bits \<lfloor>z\<rfloor> - 1
        in if z = 2 ^ j then - int j else - int j - 1)"

definition half_even :: "rat \<Rightarrow> int" where
  "half_even m =
     (let f = \<lfloor>m\<rfloor>;
          t = m - of_int f
      in if t < 1 / 2 then f
         else if 1 / 2 < t then f + 1
         else if even f then f else f + 1)"

definition binary64 :: "rat \<Rightarrow> rat" where
  "binary64 x =
     (if x = 0 then 0
      else
        let e = binary_exponent \<bar>x\<bar>;
            ulp = (if 52 \<le> e then 2 ^ nat (e - 52) else 1 / 2 ^ nat (52 - e))
        in sgn x * of_int (half_even (\<bar>x\<bar> / ulp)) * ulp)"

subsection \<open>RoomsCarousel\<close>

definition RoomsCarousel_createDots :: "RoomsCarousel \<Rightarrow> RoomsCarousel" where
  "RoomsCarousel_createDots s =
     (case dotsContainer s of
        None \<Rightarrow> s
      | Some dots \<Rightarrow>
          let numDots = (if isMobile s then int (totalRooms s)
                         else max 1 (int (totalRooms s) - 1))
          in s\<lparr>dotsContainer :=
                 Some (dots @ map (\<lambda>i. \<lparr>active = (i = 0), onclick = Some i\<rparr>)
                                  [0..<nat numDots])\<rparr>)"

definition RoomsCarousel_updateUI :: "RoomsCarousel \<Rightarrow> RoomsCarousel" where
  "RoomsCarousel_updateUI s0 =
     (let s = s0\<lparr>calls := calls s0 @ [UpdateUI]\<rparr>;
          s1 = (case dotsContainer s of
                  None \<Rightarrow> s
                | Some dots \<Rightarrow>
                    s\<lparr>dotsContainer :=
                        Some (map (\<lambda>(index, d). d\<lparr>active := (int index = currentIndex s)\<rparr>)
                                  (enumerate 0 dots))\<rparr>);
          maxIndex = (if isMobile s1 then int (totalRooms s1) - 1
                      else int (totalRooms s1) - 2);
          s2 = (case leftArrow s1 of
                  None \<Rightarrow> s1
                | Some _ \<Rightarrow> s1\<lparr>leftArrow := Some (currentIndex s1 = 0)\<rparr>);
          s3 = (case rightArrow s2 of
                  None \<Rightarrow> s2
                | Some _ \<Rightarrow> s2\<lparr>rightArrow := Some (currentIndex s2 \<ge> maxIndex)\<rparr>)
      in s3)"

definition RoomsCarousel_updateCarousel :: "dom \<Rightarrow> RoomsCarousel \<Rightarrow> RoomsCarousel completion" where
  "RoomsCarousel_updateCarousel env s0 =
     (let s = s0\<lparr>isScrolling := True\<rparr>
      in case cardWidths env of
           [] \<Rightarrow> Thrown TypeError s
         | cardWidth # _ \<Rightarrow>
             let gap = 30;
                 scrollPosition = (int cardWidth + gap) * currentIndex s;
                 s1 = s\<lparr>calls := calls s @ [ScrollTo scrollPosition]\<rparr>;
                 s2 = RoomsCarousel_updateUI s1
             in Normal (s2\<lparr>timers := timers s2 @ [now env + 500],
                           calls := calls s2 @ [SetTimeout 500]\<rparr>))"

text \<open>\<open>syncWithScroll\<close> with the quotients and the product taken exactly.\<close>

definition RoomsCarousel_syncWithScroll :: "dom \<Rightarrow> RoomsCarousel \<Rightarrow> RoomsCarousel completion" where
  "RoomsCarousel_syncWithScroll env s =
     (if isScrolling s then Normal s
      else case cardWidths env of
             [] \<Rightarrow> Thrown TypeError s
           | cardWidth # _ \<Rightarrow>
               let gap = 30;
                   newIndex =
                     (if isMobile s then
                        max 0 (min (round (scrollLeft env / of_int (int cardWidth + gap)))
                                   (int (totalRooms s) - 1))
                      else
                        let maxScroll = scrollWidth env - clientWidth env
                        in if maxScroll > 0 then
                             let scrollPercentage = scrollLeft env / of_int maxScroll
                             in max 0 (min (round (scrollPercentage * of_int (int (totalRooms s) - 2)))
                                           (int (totalRooms s) - 2))
                           else 0)
               in if newIndex \<noteq> currentIndex s
                  then Normal (RoomsCarousel_updateUI (s\<lparr>currentIndex := newIndex\<rparr>))
                  else Normal s)"

text \<open>
  \<open>syncWithScroll\<close> as the engine computes it: the quotient
  \<open>scrollLeft / (cardWidth + gap)\<close>, the quotient \<open>scrollLeft / maxScroll\<close> and the
  product \<open>scrollPercentage * (totalRooms - 2)\<close> are each rounded to binary64, and
  \<open>Math.round\<close> takes the rounded value. This is the version the scroll listener
  runs; the one above takes the quotients and the product exactly.
\<close>

definition RoomsCarousel_syncWithScroll_binary64 ::
  "dom \<Rightarrow> RoomsCarousel \<Rightarrow> RoomsCarousel completion" where
  "RoomsCarousel_syncWithScroll_binary64 env s =
     (if isScrolling s then Normal s
      else case cardWidths env of
             [] \<Rightarrow> Thrown TypeError s
           | cardWidth # _ \<Rightarrow>
               let gap = 30;
                   newIndex =
                     (if isMobile s then
                        max 0 (min (round (binary64
                                      (scrollLeft env / of_int (int cardWidth + gap))))
                                   (int (totalRooms s) - 1))
                      else
                        let maxScroll = scrollWidth env - clientWidth env
                        in if maxScroll > 0 then
                             let scrollPercentage = binary64 (scrollLeft env / of_int maxScroll)
                             in max 0 (min (round (binary64
                                              (scrollPercentage * of_int (int (totalRooms s) - 2))))
                                           (int (totalRooms s) - 2))
                           else 0)
               in if newIndex \<noteq> currentIndex s
                  then Normal (RoomsCarousel_updateUI (s\<lparr>currentIndex := newIndex\<rparr>))
                  else Normal s)"

definition RoomsCarousel_goToPrevious :: "dom \<Rightarrow> RoomsCarousel \<Rightarrow> RoomsCarousel completion" where
  "RoomsCarousel_goToPrevious env s =
     (if currentIndex s > 0
      then RoomsCarousel_updateCarousel env (s\<lparr>currentIndex := currentIndex s - 1\<rparr>)
      else Normal s)"

definition RoomsCarousel_goToNext :: "dom \<Rightarrow> RoomsCarousel \<Rightarrow> RoomsCarousel completion" where
  "RoomsCarousel_goToNext env s =
     (let maxIndex = (if isMobile s then int (totalRooms s) - 1 else int (totalRooms s) - 2)
      in if currentIndex s < maxIndex
         then RoomsCarousel_updateCarousel env (s\<lparr>currentIndex := currentIndex s + 1\<rparr>)
         else Normal s)"

definition RoomsCarousel_goToSlide :: "int \<Rightarrow> dom \<Rightarrow> RoomsCarousel \<Rightarrow> RoomsCarousel completion" where
  "RoomsCarousel_goToSlide index env s =
     RoomsCarousel_updateCarousel env (s\<lparr>currentIndex := index\<rparr>)"

text \<open>The three touch listeners of \<open>addSwipeSupport\<close>.\<close>

definition RoomsCarousel_touchstart :: "rat \<Rightarrow> rat \<Rightarrow> RoomsCarousel \<Rightarrow> RoomsCarousel" where
  "RoomsCarousel_touchstart x y s =
     s\<lparr>swipe := (swipe s)\<lparr>startX := x, startY := y,
                            isDragging := True, isHorizontalSwipe := False\<rparr>\<rparr>"

definition RoomsCarousel_touchmove :: "rat \<Rightarrow> rat \<Rightarrow> RoomsCarousel \<Rightarrow> RoomsCarousel" where
  "RoomsCarousel_touchmove x y s =
     (if \<not> isDragging (swipe s) then s
      else
        let v = (swipe s)\<lparr>currentX := x, currentY := y\<rparr>;
            diffX = \<bar>currentX v - startX v\<bar>;
            diffY = \<bar>currentY v - startY v\<bar>
        in if diffX > 10 \<or> diffY > 10 then
             (if diffX > diffY * (3 / 2)
              then s\<lparr>swipe := v\<lparr>isHorizontalSwipe := True\<rparr>\<rparr>
              else s\<lparr>swipe := v\<lparr>isDragging := False\<rparr>\<rparr>)
           else s\<lparr>swipe := v\<rparr>)"

definition RoomsCarousel_touchend :: "rat \<Rightarrow> dom \<Rightarrow> RoomsCarousel \<Rightarrow> RoomsCarousel completion" where
  "RoomsCarousel_touchend endX env s =
     (let reset = (\<lambda>t. t\<lparr>swipe := (swipe t)\<lparr>isDragging := False, isHorizontalSwipe := False\<rparr>\<rparr>)
      in if \<not> isDragging (swipe s) \<or> \<not> isHorizontalSwipe (swipe s) then Normal (reset s)
         else
           let diff = startX (swipe s) - endX
           in and_then
                (if \<bar>diff\<bar> > 50 then
                   (if diff > 0 then RoomsCarousel_goToNext env s
                    else RoomsCarousel_goToPrevious env s)
                 else Normal s)
                (\<lambda>t. Normal (reset t)))"

text \<open>The \<open>keydown\<close> listener of \<open>addKeyboardSupport\<close>.\<close>

definition RoomsCarousel_keydown :: "string \<Rightarrow> dom \<Rightarrow> RoomsCarousel \<Rightarrow> RoomsCarousel completion" where
  "RoomsCarousel_keydown key env s =
     (let isInView = (rectTop env < of_int (innerHeight env) \<and> rectBottom env > 0)
      in if \<not> isInView then Normal s
         else if key = ''ArrowLeft'' then RoomsCarousel_goToPrevious env s
         else if key = ''ArrowRight'' then RoomsCarousel_goToNext env s
         else Normal s)"

text \<open>The \<open>resize\<close> listener of \<open>init\<close> (the function passed to \<open>debounce\<close>).\<close>

definition RoomsCarousel_resize :: "dom \<Rightarrow> RoomsCarousel \<Rightarrow> RoomsCarousel completion" where
  "RoomsCarousel_resize env s0 =
     (let wasMobile = isMobile s0;
          s = s0\<lparr>isMobile := (innerWidth env \<le> 768)\<rparr>
      in if wasMobile \<noteq> isMobile s then
           (case dotsContainer s of
              None \<Rightarrow> Thrown TypeError s
            | Some _ \<Rightarrow>
                let s1 = s\<lparr>dotsContainer := Some []\<rparr>;
                    s2 = RoomsCarousel_createDots s1;
                    s3 = s2\<lparr>currentIndex := 0\<rparr>
                in RoomsCarousel_updateCarousel env s3)
         else Normal s)"

definition RoomsCarousel_init :: "dom \<Rightarrow> RoomsCarousel \<Rightarrow> RoomsCarousel completion" where
  "RoomsCarousel_init env s =
     (if \<not> carousel s then Normal s
      else
        let s1 = s\<lparr>totalRooms := length (cardWidths env)\<rparr>;
            s2 = RoomsCarousel_createDots s1
        in RoomsCarousel_updateCarousel env s2)"

text \<open>
  The constructor, given what the four lookups find: whether \<open>#roomsCarousel\<close> exists,
  the \<open>disabled\<close> property of each arrow, and the \<open>active\<close> classes of the dots that
  \<open>#carouselDots\<close> holds in the markup (they have no listener).
\<close>

definition RoomsCarousel_constructor ::
  "bool \<Rightarrow> bool option \<Rightarrow> bool option \<Rightarrow> bool list option \<Rightarrow> dom \<Rightarrow> RoomsCarousel completion" where
  "RoomsCarousel_constructor carouselEl leftEl rightEl dotsEl env =
     RoomsCarousel_init env
       \<lparr>carousel = carouselEl, leftArrow = leftEl, rightArrow = rightEl,
        currentIndex = 0, isScrolling = False, isMobile = (innerWidth env \<le> 768),
        swipe = \<lparr>startX = 0, startY = 0, currentX = 0, currentY = 0,
                 isDragging = False, isHorizontalSwipe = False\<rparr>,
        timers = [], calls = [],
        dotsContainer = map_option (map (\<lambda>a. \<lparr>active = a, onclick = None\<rparr>)) dotsEl,
        totalRooms = 0\<rparr>"

text \<open>The callback of \<open>setTimeout\<close> in \<open>updateCarousel\<close>.\<close>

definition RoomsCarousel_timeout :: "RoomsCarousel \<Rightarrow> RoomsCarousel" where
  "RoomsCarousel_timeout s = s\<lparr>isScrolling := False\<rparr>"

text \<open>
  Every pending callback that is due at time \<open>t\<close> runs, oldest first, and leaves the
  queue. Callbacks are taken to run as soon as they are due.
\<close>

definition RoomsCarousel_fireTimers :: "nat \<Rightarrow> RoomsCarousel \<Rightarrow> RoomsCarousel" where
  "RoomsCarousel_fireTimers t s =
     (foldl (\<lambda>u d. RoomsCarousel_timeout u) s (filter (\<lambda>d. d \<le> t) (timers s)))
       \<lparr>timers := filter (\<lambda>d. t < d) (timers s)\<rparr>"

text \<open>
  The listeners that \<open>init\<close> and \<open>createDots\<close> register, by event. A click on an
  arrow runs its listener whatever the arrow's \<open>disabled\<close> property is.
\<close>

fun RoomsCarousel_listener :: "event \<Rightarrow> dom \<Rightarrow> RoomsCarousel \<Rightarrow> RoomsCarousel completion" where
  "RoomsCarousel_listener (Click RoomsLeftArrow) env s =
     (if leftArrow s \<noteq> None then RoomsCarousel_goToPrevious env s else Normal s)"
| "RoomsCarousel_listener (Click RoomsRightArrow) env s =
     (if rightArrow s \<noteq> None then RoomsCarousel_goToNext env s else Normal s)"
| "RoomsCarousel_listener (Click (RoomsDot p)) env s =
     (case dotsContainer s of
        None \<Rightarrow> Normal s
      | Some dots \<Rightarrow>
          if p < length dots then
            (case onclick (dots ! p) of
               None \<Rightarrow> Normal s
             | Some i \<Rightarrow> RoomsCarousel_goToSlide (int i) env s)
          else Normal s)"
| "RoomsCarousel_listener (Scroll RoomsCarouselEl) env s =
     RoomsCarousel_syncWithScroll_binary64 env s"
| "RoomsCarousel_listener (TouchStart RoomsCarouselEl x y) env s =
     Normal (RoomsCarousel_touchstart x y s)"
| "RoomsCarousel_listener (TouchMove RoomsCarouselEl x y) env s =
     Normal (RoomsCarousel_touchmove x y s)"
| "RoomsCarousel_listener (TouchEnd RoomsCarouselEl x) env s = RoomsCarousel_touchend x env s"
| "RoomsCarousel_listener (KeyDown key) env s = RoomsCarousel_keydown key env s"
| "RoomsCarousel_listener Resize env s = RoomsCarousel_resize env s"
| "RoomsCarousel_listener _ env s = Normal s"

text \<open>\<open>init\<close> registers nothing when \<open>#roomsCarousel\<close> is missing.\<close>

definition RoomsCarousel_dispatch :: "event \<Rightarrow> dom \<Rightarrow> RoomsCarousel \<Rightarrow> RoomsCarousel completion" where
  "RoomsCarousel_dispatch ev env s =
     (if carousel s then RoomsCarousel_listener ev env s else Normal s)"

text \<open>
  One turn of the event loop at time \<open>now env\<close>: the due callbacks, then the listener.
  An exception is reported by the browser and the page goes on with the fields as they
  are.
\<close>

definition RoomsCarousel_step :: "event \<times> dom \<Rightarrow> RoomsCarousel \<Rightarrow> RoomsCarousel" where
  "RoomsCarousel_step p s =
     state_of (RoomsCarousel_dispatch (fst p) (snd p) (RoomsCarousel_fireTimers (now (snd p)) s))"

fun RoomsCarousel_run :: "(event \<times> dom) list \<Rightarrow> RoomsCarousel \<Rightarrow> RoomsCarousel" where
  "RoomsCarousel_run [] s = s"
| "RoomsCarousel_run (p # ps) s = RoomsCarousel_run ps (RoomsCarousel_step p s)"

subsection \<open>AmenitiesCarousel\<close>

definition AmenitiesCarousel_updateUI :: "AmenitiesCarousel \<Rightarrow> AmenitiesCarousel" where
  "AmenitiesCarousel_updateUI s0 =
     (let s = s0\<lparr>calls := calls s0 @ [UpdateUI]\<rparr>;
          maxIndex = (if isMobile s then int (totalCards s) - 1
                      else max 0 (int (totalCards s) - 4));
          s1 = (case leftArrow s of
                  None \<Rightarrow> s
                | Some _ \<Rightarrow> s\<lparr>leftArrow := Some (currentIndex s = 0)\<rparr>);
          s2 = (case rightArrow s1 of
                  None \<Rightarrow> s1
                | Some _ \<Rightarrow> s1\<lparr>rightArrow := Some (currentIndex s1 \<ge> maxIndex)\<rparr>)
      in s2)"

definition AmenitiesCarousel_updateCarousel ::
  "dom \<Rightarrow> AmenitiesCarousel \<Rightarrow> AmenitiesCarousel completion" where
  "AmenitiesCarousel_updateCarousel env s0 =
     (let s = s0\<lparr>isScrolling := True\<rparr>
      in case cardWidths env of
           [] \<Rightarrow> Thrown TypeError s
         | cardWidth # _ \<Rightarrow>
             let gap = 20;
                 scrollPosition = (int cardWidth + gap) * currentIndex s;
                 s1 = s\<lparr>calls := calls s @ [ScrollTo scrollPosition]\<rparr>;
                 s2 = AmenitiesCarousel_updateUI s1
             in Normal (s2\<lparr>timers := timers s2 @ [now env + 500],
                           calls := calls s2 @ [SetTimeout 500]\<rparr>))"

text \<open>\<open>syncWithScroll\<close> with the quotients and the product taken exactly.\<close>

definition AmenitiesCarousel_syncWithScroll ::
  "dom \<Rightarrow> AmenitiesCarousel \<Rightarrow> AmenitiesCarousel completion" where
  "AmenitiesCarousel_syncWithScroll env s =
     (if isScrolling s then Normal s
      else
        let finish = (\<lambda>newIndex.
              if newIndex \<noteq> currentIndex s
              then Normal (AmenitiesCarousel_updateUI (s\<lparr>currentIndex := newIndex\<rparr>))
              else Normal s)
        in if isMobile s then
             (case cardWidths env of
                [] \<Rightarrow> Thrown TypeError s
              | cardWidth # _ \<Rightarrow>
                  let gap = 20
                  in finish (max 0 (min (round (scrollLeft env / of_int (int cardWidth + gap)))
                                        (int (totalCards s) - 1))))
           else
             let maxScroll = scrollWidth env - clientWidth env
             in if maxScroll > 0 then
                  let scrollPercentage = scrollLeft env / of_int maxScroll;
                      maxIndex = max 0 (int (totalCards s) - 4)
                  in finish (max 0 (min (round (scrollPercentage * of_int maxIndex)) maxIndex))
                else finish 0)"

text \<open>The same in binary64 arithmetic: the version the scroll listener runs.\<close>

definition AmenitiesCarousel_syncWithScroll_binary64 ::
  "dom \<Rightarrow> AmenitiesCarousel \<Rightarrow> AmenitiesCarousel completion" where
  "AmenitiesCarousel_syncWithScroll_binary64 env s =
     (if isScrolling s then Normal s
      else
        let finish = (\<lambda>newIndex.
              if newIndex \<noteq> currentIndex s
              then Normal (AmenitiesCarousel_updateUI (s\<lparr>currentIndex := newIndex\<rparr>))
              else Normal s)
        in if isMobile s then
             (case cardWidths env of
                [] \<Rightarrow> Thrown TypeError s
              | cardWidth # _ \<Rightarrow>
                  let gap = 20
                  in finish (max 0 (min (round (binary64
                                           (scrollLeft env / of_int (int cardWidth + gap))))
                                        (int (totalCards s) - 1))))
           else
             let maxScroll = scrollWidth env - clientWidth env
             in if maxScroll > 0 then
                  let scrollPercentage = binary64 (scrollLeft env / of_int maxScroll);
                      maxIndex = max 0 (int (totalCards s) - 4)
                  in finish (max 0 (min (round (binary64 (scrollPercentage * of_int maxIndex)))
                                        maxIndex))
                else finish 0)"

definition AmenitiesCarousel_goToPrevious ::
  "dom \<Rightarrow> AmenitiesCarousel \<Rightarrow> AmenitiesCarousel completion" where
  "AmenitiesCarousel_goToPrevious env s =
     (if currentIndex s > 0
      then AmenitiesCarousel_updateCarousel env (s\<lparr>currentIndex := currentIndex s - 1\<rparr>)
      else Normal s)"

definition AmenitiesCarousel_goToNext ::
  "dom \<Rightarrow> AmenitiesCarousel \<Rightarrow> AmenitiesCarousel completion" where
  "AmenitiesCarousel_goToNext env s =
     (let maxIndex = (if isMobile s then int (totalCards s) - 1
                      else max 0 (int (totalCards s) - 4))
      in if currentIndex s < maxIndex
         then AmenitiesCarousel_updateCarousel env (s\<lparr>currentIndex := currentIndex s + 1\<rparr>)
         else Normal s)"

definition AmenitiesCarousel_touchstart ::
  "rat \<Rightarrow> rat \<Rightarrow> AmenitiesCarousel \<Rightarrow> AmenitiesCarousel" where
  "AmenitiesCarousel_touchstart x y s =
     s\<lparr>swipe := (swipe s)\<lparr>startX := x, startY := y,
                            isDragging := True, isHorizontalSwipe := False\<rparr>\<rparr>"

definition AmenitiesCarousel_touchmove ::
  "rat \<Rightarrow> rat \<Rightarrow> AmenitiesCarousel \<Rightarrow> AmenitiesCarousel" where
  "AmenitiesCarousel_touchmove x y s =
     (if \<not> isDragging (swipe s) then s
      else
        let v = (swipe s)\<lparr>currentX := x, currentY := y\<rparr>;
            diffX = \<bar>currentX v - startX v\<bar>;
            diffY = \<bar>currentY v - startY v\<bar>
        in if diffX > 10 \<or> diffY > 10 then
             (if diffX > diffY * (3 / 2)
              then s\<lparr>swipe := v\<lparr>isHorizontalSwipe := True\<rparr>\<rparr>
              else s\<lparr>swipe := v\<lparr>isDragging := False\<rparr>\<rparr>)
           else s\<lparr>swipe := v\<rparr>)"

definition AmenitiesCarousel_touchend ::
  "rat \<Rightarrow> dom \<Rightarrow> AmenitiesCarousel \<Rightarrow> AmenitiesCarousel completion" where
  "AmenitiesCarousel_touchend endX env s =
     (let reset = (\<lambda>t. t\<lparr>swipe := (swipe t)\<lparr>isDragging := False, isHorizontalSwipe := False\<rparr>\<rparr>)
      in if \<not> isDragging (swipe s) \<or> \<not> isHorizontalSwipe (swipe s) then Normal (reset s)
         else
           let diff = startX (swipe s) - endX
           in and_then
                (if \<bar>diff\<bar> > 50 then
                   (if diff > 0 then AmenitiesCarousel_goToNext env s
                    else AmenitiesCarousel_goToPrevious env s)
                 else Normal s)
                (\<lambda>t. Normal (reset t)))"

definition AmenitiesCarousel_resize ::
  "dom \<Rightarrow> AmenitiesCarousel \<Rightarrow> AmenitiesCarousel completion" where
  "AmenitiesCarousel_resize env s0 =
     (let wasMobile = isMobile s0;
          s = s0\<lparr>isMobile := (innerWidth env \<le> 768)\<rparr>
      in if wasMobile \<noteq> isMobile s
         then AmenitiesCarousel_updateCarousel env (s\<lparr>currentIndex := 0\<rparr>)
         else Normal s)"

definition AmenitiesCarousel_init ::
  "dom \<Rightarrow> AmenitiesCarousel \<Rightarrow> AmenitiesCarousel completion" where
  "AmenitiesCarousel_init env s =
     (if \<not> carousel s then Normal s
      else AmenitiesCarousel_updateCarousel env (s\<lparr>totalCards := length (cardWidths env)\<rparr>))"

definition AmenitiesCarousel_constructor ::
  "bool \<Rightarrow> bool option \<Rightarrow> bool option \<Rightarrow> dom \<Rightarrow> AmenitiesCarousel completion" where
  "AmenitiesCarousel_constructor carouselEl leftEl rightEl env =
     AmenitiesCarousel_init env
       \<lparr>carousel = carouselEl, leftArrow = leftEl, rightArrow = rightEl,
        currentIndex = 0, isScrolling = False, isMobile = (innerWidth env \<le> 768),
        swipe = \<lparr>startX = 0, startY = 0, currentX = 0, currentY = 0,
                 isDragging = False, isHorizontalSwipe = False\<rparr>,
        timers = [], calls = [],
        totalCards = 0\<rparr>"

definition AmenitiesCarousel_timeout :: "AmenitiesCarousel \<Rightarrow> AmenitiesCarousel" where
  "AmenitiesCarousel_timeout s = s\<lparr>isScrolling := False\<rparr>"

definition AmenitiesCarousel_fireTimers :: "nat \<Rightarrow> AmenitiesCarousel \<Rightarrow> AmenitiesCarousel" where
  "AmenitiesCarousel_fireTimers t s =
     (foldl (\<lambda>u d. AmenitiesCarousel_timeout u) s (filter (\<lambda>d. d \<le> t) (timers s)))
       \<lparr>timers := filter (\<lambda>d. t < d) (timers s)\<rparr>"

text \<open>The listeners that \<open>init\<close> registers: none for keys, none for indicators.\<close>

fun AmenitiesCarousel_listener ::
  "event \<Rightarrow> dom \<Rightarrow> AmenitiesCarousel \<Rightarrow> AmenitiesCarousel completion" where
  "AmenitiesCarousel_listener (Click AmenitiesLeftArrow) env s =
     (if leftArrow s \<noteq> None then AmenitiesCarousel_goToPrevious env s else Normal s)"
| "AmenitiesCarousel_listener (Click AmenitiesRightArrow) env s =
     (if rightArrow s \<noteq> None then AmenitiesCarousel_goToNext env s else Normal s)"
| "AmenitiesCarousel_listener (Scroll AmenitiesCarouselEl) env s =
     AmenitiesCarousel_syncWithScroll_binary64 env s"
| "AmenitiesCarousel_listener (TouchStart AmenitiesCarouselEl x y) env s =
     Normal (AmenitiesCarousel_touchstart x y s)"
| "AmenitiesCarousel_listener (TouchMove AmenitiesCarouselEl x y) env s =
     Normal (AmenitiesCarousel_touchmove x y s)"
| "AmenitiesCarousel_listener (TouchEnd AmenitiesCarouselEl x) env s =
     AmenitiesCarousel_touchend x env s"
| "AmenitiesCarousel_listener Resize env s = AmenitiesCarousel_resize env s"
| "AmenitiesCarousel_listener _ env s = Normal s"

definition AmenitiesCarousel_dispatch ::
  "event \<Rightarrow> dom \<Rightarrow> AmenitiesCarousel \<Rightarrow> AmenitiesCarousel completion" where
  "AmenitiesCarousel_dispatch ev env s =
     (if carousel s then AmenitiesCarousel_listener ev env s else Normal s)"

definition AmenitiesCarousel_step :: "event \<times> dom \<Rightarrow> AmenitiesCarousel \<Rightarrow> AmenitiesCarousel" where
  "AmenitiesCarousel_step p s =
     state_of (AmenitiesCarousel_dispatch (fst p) (snd p)
                 (AmenitiesCarousel_fireTimers (now (snd p)) s))"

fun AmenitiesCarousel_run ::
  "(event \<times> dom) list \<Rightarrow> AmenitiesCarousel \<Rightarrow> AmenitiesCarousel" where
  "AmenitiesCarousel_run [] s = s"
| "AmenitiesCarousel_run (p # ps) s = AmenitiesCarousel_run ps (AmenitiesCarousel_step p s)"

subsection \<open>The page\<close>

text \<open>
  What \<open>App.initializeModules\<close> finds in the markup for the two carousels. The two
  constructors run inside one \<open>try\<close> block, the rooms first: when the first throws, the
  second never runs. The listeners of the first are registered by then and stay.
\<close>

record markup =
  roomsCarouselEl :: bool
  roomsLeftEl :: "bool option"
  roomsRightEl :: "bool option"
  carouselDotsEl :: "bool list option"
  amenitiesCarouselEl :: bool
  amenitiesLeftEl :: "bool option"
  amenitiesRightEl :: "bool option"

record page =
  rooms :: RoomsCarousel
  amenities :: "AmenitiesCarousel option"

definition App_initializeModules :: "markup \<Rightarrow> dom \<Rightarrow> dom \<Rightarrow> page" where
  "App_initializeModules m envR envA =
     (case RoomsCarousel_constructor (roomsCarouselEl m) (roomsLeftEl m) (roomsRightEl m)
             (carouselDotsEl m) envR of
        Thrown e r \<Rightarrow> \<lparr>rooms = r, amenities = None\<rparr>
      | Normal r \<Rightarrow>
          \<lparr>rooms = r,
           amenities = Some (state_of (AmenitiesCarousel_constructor (amenitiesCarouselEl m)
                                         (amenitiesLeftEl m) (amenitiesRightEl m) envA))\<rparr>)"

text \<open>An event reaches the listeners of both instances, each reading its own container.\<close>

definition page_dispatch :: "event \<Rightarrow> dom \<Rightarrow> dom \<Rightarrow> page \<Rightarrow> page" where
  "page_dispatch ev envR envA pg =
     \<lparr>rooms = state_of (RoomsCarousel_dispatch ev envR (rooms pg)),
      amenities = map_option (\<lambda>a. state_of (AmenitiesCarousel_dispatch ev envA a))
                             (amenities pg)\<rparr>"

subsection \<open>The bound of the index, in the code and in the specification\<close>

text \<open>
  The value of the local constant \<open>maxIndex\<close>, which \<open>goToPrevious\<close>, \<open>goToNext\<close>
  and \<open>updateUI\<close> of each class compute by the same expression.
\<close>

definition RoomsCarousel_maxIndex :: "RoomsCarousel \<Rightarrow> int" where
  "RoomsCarousel_maxIndex s =
     (if isMobile s then int (totalRooms s) - 1 else int (totalRooms s) - 2)"

definition AmenitiesCarousel_maxIndex :: "AmenitiesCarousel \<Rightarrow> int" where
  "AmenitiesCarousel_maxIndex s =
     (if isMobile s then int (totalCards s) - 1 else max 0 (int (totalCards s) - 4))"

text \<open>
  The specification's words: \<open>clamp(i, 0, maxIndex)\<close>, and \<open>maxIndex\<close> derived as
  \<open>itemCount - visibleCount\<close> when \<open>itemCount \<ge> visibleCount\<close>, else 0, where
  \<open>visibleCount\<close> is 1 in narrow mode and the instance's fixed count in wide mode.
\<close>

definition clamp :: "int \<Rightarrow> int \<Rightarrow> int \<Rightarrow> int" where
  "clamp i lo hi = max lo (min i hi)"

definition spec_visibleCount :: "bool \<Rightarrow> nat \<Rightarrow> nat" where
  "spec_visibleCount narrow visibleCountWide = (if narrow then 1 else visibleCountWide)"

definition spec_maxIndex :: "nat \<Rightarrow> nat \<Rightarrow> int" where
  "spec_maxIndex itemCount visibleCount =
     (if itemCount \<ge> visibleCount then int itemCount - int visibleCount else 0)"

text \<open>
  The specification's index of a scroll offset. Narrow mode:
  \<open>round(scrollOffset / (cardWidth + gap))\<close>, clamped to \<open>[0, itemCount - 1]\<close>. Wide
  mode: if \<open>maxScroll > 0\<close>, \<open>round((scrollOffset / maxScroll) * maxIndex)\<close>, clamped
  to \<open>[0, maxIndex]\<close>; else 0.
\<close>

definition spec_scrollIndex :: "bool \<Rightarrow> rat \<Rightarrow> int \<Rightarrow> int \<Rightarrow> int \<Rightarrow> nat \<Rightarrow> int" where
  "spec_scrollIndex narrow scrollOffset cardPitch maxScroll maxIndex itemCount =
     (if narrow then clamp (round (scrollOffset / of_int cardPitch)) 0 (int itemCount - 1)
      else if maxScroll > 0
           then clamp (round ((scrollOffset / of_int maxScroll) * of_int maxIndex)) 0 maxIndex
           else 0)"

text \<open>
  The same formula with the quotients and the product rounded to binary64, as an
  implementation over doubles evaluates it.
\<close>

definition spec_scrollIndex_binary64 ::
  "bool \<Rightarrow> rat \<Rightarrow> int \<Rightarrow> int \<Rightarrow> int \<Rightarrow> nat \<Rightarrow> int" where
  "spec_scrollIndex_binary64 narrow scrollOffset cardPitch maxScroll maxIndex itemCount =
     (if narrow
      then clamp (round (binary64 (scrollOffset / of_int cardPitch))) 0 (int itemCount - 1)
      else if maxScroll > 0
           then clamp (round (binary64 (binary64 (scrollOffset / of_int maxScroll)
                                          * of_int maxIndex))) 0 maxIndex
           else 0)"

text \<open>The calls made by a handler: what it appended to the trace.\<close>

definition new_calls :: "call list \<Rightarrow> call list \<Rightarrow> call list" where
  "new_calls before after = drop (length before) after"

text \<open>
  What a carousel shows of its index: the \<open>active\<close> classes of the indicators and
  the \<open>disabled\<close> properties of the two arrows.
\<close>

definition RoomsCarousel_rendered ::
  "RoomsCarousel \<Rightarrow> bool list option \<times> bool option \<times> bool option" where
  "RoomsCarousel_rendered s =
     (map_option (map active) (dotsContainer s), leftArrow s, rightArrow s)"

definition AmenitiesCarousel_rendered :: "AmenitiesCarousel \<Rightarrow> bool option \<times> bool option" where
  "AmenitiesCarousel_rendered s = (leftArrow s, rightArrow s)"


text \<open>
  The invariant of the rooms carousel: at least two cards, the index within
  \<open>[0, maxIndex]\<close>, the indicator container present, and every indicator's listener
  passing an index that is at most \<open>maxIndex\<close>. For the amenities: at least one card and
  the index within \<open>[0, maxIndex]\<close>.
\<close>

definition RoomsCarousel_inv :: "RoomsCarousel \<Rightarrow> bool" where
  "RoomsCarousel_inv s \<longleftrightarrow>
     2 \<le> totalRooms s \<and> 0 \<le> currentIndex s \<and> currentIndex s \<le> RoomsCarousel_maxIndex s \<and>
     (case dotsContainer s of
        None \<Rightarrow> False
      | Some dots \<Rightarrow>
          \<forall>l \<in> set (map onclick dots).
            (case l of None \<Rightarrow> True | Some i \<Rightarrow> int i \<le> RoomsCarousel_maxIndex s))"

definition AmenitiesCarousel_inv :: "AmenitiesCarousel \<Rightarrow> bool" where
  "AmenitiesCarousel_inv s \<longleftrightarrow>
     1 \<le> totalCards s \<and> 0 \<le> currentIndex s \<and> currentIndex s \<le> AmenitiesCarousel_maxIndex s"


subsection \<open>Sample documents\<close>

text \<open>
  A wide window over five room cards of 300px, three of them visible; a narrow window
  over three cards, one visible; a container with no card.
\<close>

definition wide_dom :: dom where
  "wide_dom = \<lparr>now = 0, innerWidth = 1280, innerHeight = 800,
               cardWidths = [300, 300, 300, 300, 300], scrollLeft = 0,
               scrollWidth = 1620, clientWidth = 960, rectTop = 100, rectBottom = 500\<rparr>"

definition narrow_dom :: dom where
  "narrow_dom = \<lparr>now = 0, innerWidth = 375, innerHeight = 700,
                 cardWidths = [300, 300, 300], scrollLeft = 0,
                 scrollWidth = 960, clientWidth = 300, rectTop = 100, rectBottom = 500\<rparr>"

definition empty_dom :: dom where
  "empty_dom = \<lparr>now = 0, innerWidth = 1280, innerHeight = 800,
                cardWidths = [], scrollLeft = 0,
                scrollWidth = 0, clientWidth = 0, rectTop = 100, rectBottom = 500\<rparr>"

definition rooms_wide :: RoomsCarousel where
  "rooms_wide =
     state_of (RoomsCarousel_constructor True (Some False) (Some False) (Some []) wide_dom)"

definition rooms_narrow :: RoomsCarousel where
  "rooms_narrow =
     state_of (RoomsCarousel_constructor True (Some False) (Some False) (Some []) narrow_dom)"

definition amenities_wide :: AmenitiesCarousel where
  "amenities_wide =
     state_of (AmenitiesCarousel_constructor True (Some False) (Some False) wide_dom)"

definition amenities_narrow :: AmenitiesCarousel where
  "amenities_narrow =
     state_of (AmenitiesCarousel_constructor True (Some False) (Some False) narrow_dom)"

text \<open>The samples once the timer of the constructor's scroll command has fired.\<close>

definition rooms_wide_idle :: RoomsCarousel where
  "rooms_wide_idle = RoomsCarousel_fireTimers 500 rooms_wide"

definition rooms_narrow_idle :: RoomsCarousel where
  "rooms_narrow_idle = RoomsCarousel_fireTimers 500 rooms_narrow"

definition amenities_wide_idle :: AmenitiesCarousel where
  "amenities_wide_idle = AmenitiesCarousel_fireTimers 500 amenities_wide"

definition amenities_narrow_idle :: AmenitiesCarousel where
  "amenities_narrow_idle = AmenitiesCarousel_fireTimers 500 amenities_narrow"

text \<open>
  The wide rooms sample in a page without \<open>#carouselDots\<close>; the page whose
  \<open>#roomsCarousel\<close> holds no card; the samples read at a given time.
\<close>

definition rooms_wide_nodots :: RoomsCarousel where
  "rooms_wide_nodots =
     state_of (RoomsCarousel_constructor True (Some False) (Some False) None wide_dom)"

definition empty_markup :: markup where
  "empty_markup = \<lparr>roomsCarouselEl = True, roomsLeftEl = Some False, roomsRightEl = Some False,
                    carouselDotsEl = Some [], amenitiesCarouselEl = True,
                    amenitiesLeftEl = Some False, amenitiesRightEl = Some False\<rparr>"

definition wide_dom_at :: "nat \<Rightarrow> dom" where
  "wide_dom_at t = wide_dom\<lparr>now := t\<rparr>"

text \<open>
  The wide document with two cards visible, so that the scroll range
  \<open>1620 - 630 = 990\<close> is three card pitches of 330.
\<close>

definition wide_dom_matching :: dom where
  "wide_dom_matching = wide_dom\<lparr>clientWidth := 630\<rparr>"

definition narrow_dom_at :: "nat \<Rightarrow> dom" where
  "narrow_dom_at t = narrow_dom\<lparr>now := t\<rparr>"

text \<open>
  The idle wide rooms after \<open>goToSlide(1)\<close> at time 1000 and \<open>goToSlide(2)\<close> at time
  1300; the rooms carousel constructed over the container without cards.
\<close>

definition rooms_two_commands :: RoomsCarousel where
  "rooms_two_commands =
     state_of (RoomsCarousel_goToSlide 2 (wide_dom_at 1300)
       (RoomsCarousel_fireTimers 1300
          (state_of (RoomsCarousel_goToSlide 1 (wide_dom_at 1000) rooms_wide_idle))))"

definition rooms_empty :: "RoomsCarousel completion" where
  "rooms_empty = RoomsCarousel_constructor True (Some False) (Some False) (Some []) empty_dom"

text \<open>
  A wide window over a single room card; the narrow rooms sample in a page without
  \<open>#carouselDots\<close>; a session of events on the wide samples.
\<close>

definition one_card_dom :: dom where
  "one_card_dom = \<lparr>now = 0, innerWidth = 1280, innerHeight = 800,
                   cardWidths = [300], scrollLeft = 0,
                   scrollWidth = 300, clientWidth = 960, rectTop = 100, rectBottom = 500\<rparr>"

definition rooms_narrow_nodots :: RoomsCarousel where
  "rooms_narrow_nodots =
     state_of (RoomsCarousel_constructor True (Some False) (Some False) None narrow_dom)"

definition rooms_session :: "(event \<times> dom) list" where
  "rooms_session =
     [(Click RoomsRightArrow, wide_dom_at 1000),
      (Click (RoomsDot 3), wide_dom_at 2000),
      (KeyDown ''ArrowRight'', wide_dom_at 3000),
      (Scroll RoomsCarouselEl, (wide_dom_at 4000)\<lparr>scrollLeft := 400\<rparr>),
      (Resize, narrow_dom_at 5000),
      (TouchStart RoomsCarouselEl 200 50, narrow_dom_at 6000),
      (TouchMove RoomsCarouselEl 120 52, narrow_dom_at 6010),
      (TouchEnd RoomsCarouselEl 100, narrow_dom_at 6020),
      (Click RoomsLeftArrow, narrow_dom_at 7000)]"

definition amenities_session :: "(event \<times> dom) list" where
  "amenities_session =
     [(Click AmenitiesRightArrow, wide_dom_at 1000),
      (KeyDown ''ArrowRight'', wide_dom_at 3000),
      (Scroll AmenitiesCarouselEl, (wide_dom_at 4000)\<lparr>scrollLeft := 400\<rparr>),
      (Resize, narrow_dom_at 5000),
      (TouchStart AmenitiesCarouselEl 200 50, narrow_dom_at 6000),
      (TouchMove AmenitiesCarouselEl 120 52, narrow_dom_at 6010),
      (TouchEnd AmenitiesCarouselEl 100, narrow_dom_at 6020),
      (Click AmenitiesLeftArrow, narrow_dom_at 7000)]"

text \<open>
  A wide window over thirteen room cards of 300px, scrolled to 2250 of a scroll range of
  \<open>4260 - 960 = 3300\<close>, and the rooms carousel constructed over it, idle.
\<close>

definition thirteen_dom :: dom where
  "thirteen_dom = \<lparr>now = 0, innerWidth = 1280, innerHeight = 800,
                   cardWidths = replicate 13 300, scrollLeft = 2250,
                   scrollWidth = 4260, clientWidth = 960, rectTop = 100, rectBottom = 500\<rparr>"

definition rooms_thirteen_idle :: RoomsCarousel where
  "rooms_thirteen_idle =
     RoomsCarousel_fireTimers 500
       (state_of (RoomsCarousel_constructor True (Some False) (Some False) (Some [])
                    thirteen_dom))"

section \<open>Properties\<close>

subsection \<open>Binary64 arithmetic\<close>

text \<open>
  \<open>binary64\<close> against known doubles: \<open>1/3\<close> and \<open>2250/3300\<close> round to the doubles
  an engine prints as 0.3333333333333333 and 0.6818181818181818; a number with at most 53
  significant bits is kept; \<open>2^53 + 1\<close> and \<open>2^53 + 3\<close> lie halfway between two
  doubles and go to the even significand.
\<close>

lemma binary64_samples:
  "binary64 (1 / 3) = 6004799503160661 / 18014398509481984"
  "binary64 (2250 / 3300) = 6141272219141585 / 9007199254740992"
  "binary64 (binary64 (2250 / 3300) * 11) = 8444249301319679 / 1125899906842624"
  "binary64 (- 7 / 2) = - 7 / 2"
  "binary64 330 = 330"
  "binary64 9007199254740993 = 9007199254740992"
  "binary64 9007199254740995 = 9007199254740996"
  by code_simp+

text \<open>
  The error of one rounding is at most \<open>2^-53\<close> of the number rounded: the exponent
  found bounds the number from below, and the significand moves by at most a half.
\<close>

lemma bits_bounds:
  "0 < n \<Longrightarrow> 2 ^ (bits n - 1) \<le> n \<and> n < 2 ^ bits n"
proof (induction n rule: bits.induct)
  case (1 n)
  show ?case
  proof (cases "n = 1")
    case True
    have "bits 0 = 0" by (subst bits.simps) simp
    then have "bits 1 = Suc 0" by (subst bits.simps) simp
    with True show ?thesis by simp
  next
    case False
    with "1.prems" have h: "0 < n div 2" by simp
    with "1.prems" "1.IH" have IH: "2 ^ (bits (n div 2) - 1) \<le> n div 2 \<and> n div 2 < 2 ^ bits (n div 2)"
      by simp
    from h have pos: "0 < bits (n div 2)" by (subst bits.simps) simp
    from "1.prems" have b: "bits n = Suc (bits (n div 2))" by (subst bits.simps) simp
    from pos obtain c where c: "bits (n div 2) = Suc c" by (cases "bits (n div 2)") auto
    from IH c have "2 * 2 ^ c \<le> 2 * (n div 2)" by simp
    also have "\<dots> \<le> n" by simp
    finally have lo: "2 ^ (bits n - 1) \<le> n" by (simp add: b c)
    from IH have "n div 2 + 1 \<le> 2 ^ bits (n div 2)" by simp
    then have "2 * (n div 2) + 2 \<le> 2 * 2 ^ bits (n div 2)" by simp
    moreover have "n < 2 * (n div 2) + 2" by presburger
    ultimately have "n < 2 ^ bits n" by (simp add: b)
    with lo show ?thesis by simp
  qed
qed

lemma half_even_error: "\<bar>of_int (half_even m) - m\<bar> \<le> 1 / 2"
proof -
  have "of_int \<lfloor>m\<rfloor> \<le> m" "m < of_int \<lfloor>m\<rfloor> + 1" by linarith+
  then show ?thesis
    by (auto simp add: half_even_def Let_def)
qed


lemma binary_exponent_le:
  assumes "0 < y"
  shows "(2::rat) powi (binary_exponent y) \<le> y"
proof (cases "1 \<le> y")
  case True
  then have pos: "0 < \<lfloor>y\<rfloor>" by simp
  from bits_bounds [OF pos] have "2 ^ (bits \<lfloor>y\<rfloor> - 1) \<le> \<lfloor>y\<rfloor>" by simp
  then have "(of_int (2 ^ (bits \<lfloor>y\<rfloor> - 1)) :: rat) \<le> of_int \<lfloor>y\<rfloor>"
    by (simp only: of_int_le_iff)
  also have "\<dots> \<le> y" by simp
  finally have le: "(2::rat) ^ (bits \<lfloor>y\<rfloor> - 1) \<le> y" by simp
  from bits_bounds [OF pos] pos have "0 < bits \<lfloor>y\<rfloor>"
    by (cases "bits \<lfloor>y\<rfloor>") auto
  then have "int (bits \<lfloor>y\<rfloor>) - 1 = int (bits \<lfloor>y\<rfloor> - 1)" by simp
  with True le show ?thesis
    by (simp add: binary_exponent_def power_int_def del: of_nat_diff)
next
  case False
  define z where "z = 1 / y"
  define j where "j = bits \<lfloor>z\<rfloor> - 1"
  from False assms have z1: "1 < z" by (simp add: z_def)
  then have pos: "0 < \<lfloor>z\<rfloor>" by simp
  from bits_bounds [OF pos] have up: "\<lfloor>z\<rfloor> < 2 ^ bits \<lfloor>z\<rfloor>" by simp
  from bits_bounds [OF pos] pos have bpos: "0 < bits \<lfloor>z\<rfloor>"
    by (cases "bits \<lfloor>z\<rfloor>") auto
  then have bj: "bits \<lfloor>z\<rfloor> = Suc j" by (simp add: j_def)
  from up have "\<lfloor>z\<rfloor> + 1 \<le> 2 ^ Suc j" by (simp add: bj)
  then have "(of_int (\<lfloor>z\<rfloor> + 1) :: rat) \<le> of_int (2 ^ Suc j)"
    by (simp only: of_int_le_iff)
  moreover have "z < of_int (\<lfloor>z\<rfloor> + 1)" by linarith
  ultimately have zlt: "z < 2 ^ Suc j" by simp
  have yz: "y = 1 / z" using assms by (simp add: z_def)
  have be: "binary_exponent y = (if z = 2 ^ j then - int j else - int j - 1)"
    unfolding binary_exponent_def Let_def z_def j_def by (simp only: False if_False)
  show ?thesis
  proof (cases "z = 2 ^ j")
    case True
    with be have "binary_exponent y = - int j" by simp
    moreover have "(2::rat) powi (- int j) = 1 / 2 ^ j"
      by (simp add: power_int_minus divide_inverse)
    ultimately show ?thesis
      using True yz by simp
  next
    case neq: False
    with be have e: "binary_exponent y = - int j - 1" by simp
    have eq: "- int j - 1 = - int (Suc j)" by simp
    have "(2::rat) powi (binary_exponent y) = 2 powi (- int (Suc j))"
      by (simp only: e eq)
    also have "\<dots> = 1 / 2 ^ Suc j"
      by (simp only: power_int_minus power_int_of_nat divide_inverse mult_1)
    also have "\<dots> \<le> 1 / z"
      using zlt z1 by (intro divide_left_mono) simp_all
    finally show ?thesis by (simp add: yz)
  qed
qed

lemma ulp_powi:
  "(if 52 \<le> e then 2 ^ nat (e - 52) else 1 / 2 ^ nat (52 - e)) = (2::rat) powi (e - 52)"
  by (simp add: power_int_def field_simps)

lemma binary64_error:
  "\<bar>binary64 x - x\<bar> \<le> \<bar>x\<bar> / 2 ^ 53"
proof (cases "x = 0")
  case True
  then show ?thesis by (simp add: binary64_def)
next
  case False
  define e where "e = binary_exponent \<bar>x\<bar>"
  define u where "u = (2::rat) powi (e - 52)"
  define m where "m = \<bar>x\<bar> / u"
  have upos: "0 < u" by (simp add: u_def)
  have b: "binary64 x = sgn x * of_int (half_even m) * u"
    using False by (simp add: binary64_def Let_def ulp_powi e_def u_def m_def)
  have x: "x = sgn x * m * u"
    using upos by (simp add: m_def sgn_mult_abs)
  have "binary64 x - x = sgn x * (of_int (half_even m) - m) * u"
    by (subst (2) x) (simp add: b algebra_simps)
  then have "\<bar>binary64 x - x\<bar> = \<bar>of_int (half_even m) - m\<bar> * u"
    using False upos by (simp add: abs_mult abs_sgn_eq)
  also have "\<dots> \<le> (1 / 2) * u"
    using half_even_error [of m] upos by (intro mult_right_mono) simp_all
  also have "(1 / 2) * u = 2 powi e / 2 ^ 53"
    by (simp add: u_def power_int_diff)
  also have "\<dots> \<le> \<bar>x\<bar> / 2 ^ 53"
    using binary_exponent_le [of "\<bar>x\<bar>"] False
    by (intro divide_right_mono) (simp_all add: e_def)
  finally show ?thesis .
qed


lemma round_near:
  fixes y :: rat
  assumes "\<bar>y - of_int k\<bar> < 1 / 2"
  shows "round y = k"
proof -
  from assms have "of_int k \<le> y + 1 / 2" "y + 1 / 2 < of_int k + 1"
    by linarith+
  then have "\<lfloor>y + 1 / 2\<rfloor> = k" by (rule floor_unique)
  then show ?thesis by (simp add: round_def)
qed

subsection \<open>What the render step and the scroll command leave alone\<close>

lemma RoomsCarousel_updateUI_fields:
  "currentIndex (RoomsCarousel_updateUI s) = currentIndex s"
  "isMobile (RoomsCarousel_updateUI s) = isMobile s"
  "totalRooms (RoomsCarousel_updateUI s) = totalRooms s"
  "isScrolling (RoomsCarousel_updateUI s) = isScrolling s"
  "timers (RoomsCarousel_updateUI s) = timers s"
  "carousel (RoomsCarousel_updateUI s) = carousel s"
  "swipe (RoomsCarousel_updateUI s) = swipe s"
  "calls (RoomsCarousel_updateUI s) = calls s @ [UpdateUI]"
  by (simp_all add: RoomsCarousel_updateUI_def Let_def split: option.splits)

lemma RoomsCarousel_updateCarousel_Normal:
  "cardWidths env = w # ws \<Longrightarrow>
   RoomsCarousel_updateCarousel env s =
     Normal ((RoomsCarousel_updateUI
               (s\<lparr>isScrolling := True,
                  calls := calls s @ [ScrollTo ((int w + 30) * currentIndex s)]\<rparr>))
             \<lparr>timers := timers s @ [now env + 500],
              calls := calls s @ [ScrollTo ((int w + 30) * currentIndex s), UpdateUI,
                                  SetTimeout 500]\<rparr>)"
  by (simp add: RoomsCarousel_updateCarousel_def Let_def RoomsCarousel_updateUI_fields)

lemma RoomsCarousel_updateCarousel_Thrown:
  "cardWidths env = [] \<Longrightarrow>
   RoomsCarousel_updateCarousel env s = Thrown TypeError (s\<lparr>isScrolling := True\<rparr>)"
  by (simp add: RoomsCarousel_updateCarousel_def Let_def)

lemma RoomsCarousel_updateCarousel_fields:
  "currentIndex (state_of (RoomsCarousel_updateCarousel env s)) = currentIndex s"
  "isMobile (state_of (RoomsCarousel_updateCarousel env s)) = isMobile s"
  "totalRooms (state_of (RoomsCarousel_updateCarousel env s)) = totalRooms s"
  "carousel (state_of (RoomsCarousel_updateCarousel env s)) = carousel s"
  "swipe (state_of (RoomsCarousel_updateCarousel env s)) = swipe s"
  "isScrolling (state_of (RoomsCarousel_updateCarousel env s))"
  by (cases "cardWidths env";
      simp add: RoomsCarousel_updateCarousel_Normal RoomsCarousel_updateCarousel_Thrown
                RoomsCarousel_updateUI_fields)+

lemma RoomsCarousel_updateCarousel_threw:
  "threw (RoomsCarousel_updateCarousel env s) = (cardWidths env = [])"
  by (cases "cardWidths env";
      simp add: RoomsCarousel_updateCarousel_Normal RoomsCarousel_updateCarousel_Thrown)

subsection \<open>goToSlide\<close>

text \<open>
  Claim C1, as amended. \<open>goToSlide(i)\<close> on a rooms carousel with at least one card
  does not throw and stores \<open>i\<close> as it is, without clamping; the bound \<open>maxIndex\<close>
  is unchanged; so when \<open>i\<close> lies in \<open>[0, maxIndex]\<close> the stored index equals
  \<open>clamp(i, 0, maxIndex)\<close>.
\<close>

theorem C1_goToSlide_sets_index:
  assumes "cardWidths env \<noteq> []"
  shows "\<not> threw (RoomsCarousel_goToSlide i env s) \<and>
         currentIndex (state_of (RoomsCarousel_goToSlide i env s)) = i \<and>
         RoomsCarousel_maxIndex (state_of (RoomsCarousel_goToSlide i env s)) =
           RoomsCarousel_maxIndex s \<and>
         (0 \<le> i \<and> i \<le> RoomsCarousel_maxIndex s \<longrightarrow>
            currentIndex (state_of (RoomsCarousel_goToSlide i env s)) =
              clamp i 0 (RoomsCarousel_maxIndex s))"
  using assms
  by (simp add: RoomsCarousel_goToSlide_def RoomsCarousel_updateCarousel_fields
                RoomsCarousel_updateCarousel_threw RoomsCarousel_maxIndex_def clamp_def)

text \<open>The theorem at index 2 of the wide sample, where \<open>maxIndex\<close> is 3.\<close>

theorem C1_goToSlide_sets_index_witness:
  "cardWidths wide_dom \<noteq> [] \<and> 0 \<le> (2::int) \<and> 2 \<le> RoomsCarousel_maxIndex rooms_wide \<and>
   \<not> threw (RoomsCarousel_goToSlide 2 wide_dom rooms_wide) \<and>
   currentIndex (state_of (RoomsCarousel_goToSlide 2 wide_dom rooms_wide)) =
     clamp 2 0 (RoomsCarousel_maxIndex rooms_wide)"
proof -
  have nonempty: "cardWidths wide_dom \<noteq> []"
    by (simp add: wide_dom_def)
  have inrange: "0 \<le> (2::int) \<and> 2 \<le> RoomsCarousel_maxIndex rooms_wide"
    by code_simp
  from C1_goToSlide_sets_index [OF nonempty, of 2 rooms_wide] nonempty inrange
  show ?thesis by blast
qed

text \<open>
  Claim C1 as stated fails: on the wide sample (five cards, \<open>maxIndex = 3\<close>),
  \<open>goToSlide(-1)\<close> leaves the index at -1, not 0, and \<open>goToSlide(7)\<close> leaves it at 7,
  not 3.
\<close>

theorem C1_goToSlide_not_clamped:
  "cardWidths wide_dom \<noteq> [] \<and>
   currentIndex (state_of (RoomsCarousel_goToSlide (- 1) wide_dom rooms_wide)) = - 1 \<and>
   clamp (- 1) 0 (RoomsCarousel_maxIndex rooms_wide) = 0 \<and>
   currentIndex (state_of (RoomsCarousel_goToSlide (- 1) wide_dom rooms_wide)) \<noteq>
     clamp (- 1) 0 (RoomsCarousel_maxIndex rooms_wide) \<and>
   currentIndex (state_of (RoomsCarousel_goToSlide 7 wide_dom rooms_wide)) = 7 \<and>
   clamp 7 0 (RoomsCarousel_maxIndex rooms_wide) = 3"
  by code_simp

subsection \<open>Facts about the amenities render step and scroll command\<close>

lemma AmenitiesCarousel_updateUI_fields:
  "currentIndex (AmenitiesCarousel_updateUI s) = currentIndex s"
  "isMobile (AmenitiesCarousel_updateUI s) = isMobile s"
  "totalCards (AmenitiesCarousel_updateUI s) = totalCards s"
  "isScrolling (AmenitiesCarousel_updateUI s) = isScrolling s"
  "timers (AmenitiesCarousel_updateUI s) = timers s"
  "carousel (AmenitiesCarousel_updateUI s) = carousel s"
  "swipe (AmenitiesCarousel_updateUI s) = swipe s"
  "calls (AmenitiesCarousel_updateUI s) = calls s @ [UpdateUI]"
  by (simp_all add: AmenitiesCarousel_updateUI_def Let_def split: option.splits)

lemma AmenitiesCarousel_updateCarousel_Normal:
  "cardWidths env = w # ws \<Longrightarrow>
   AmenitiesCarousel_updateCarousel env s =
     Normal ((AmenitiesCarousel_updateUI
               (s\<lparr>isScrolling := True,
                  calls := calls s @ [ScrollTo ((int w + 20) * currentIndex s)]\<rparr>))
             \<lparr>timers := timers s @ [now env + 500],
              calls := calls s @ [ScrollTo ((int w + 20) * currentIndex s), UpdateUI,
                                  SetTimeout 500]\<rparr>)"
  by (simp add: AmenitiesCarousel_updateCarousel_def Let_def AmenitiesCarousel_updateUI_fields)

lemma AmenitiesCarousel_updateCarousel_Thrown:
  "cardWidths env = [] \<Longrightarrow>
   AmenitiesCarousel_updateCarousel env s = Thrown TypeError (s\<lparr>isScrolling := True\<rparr>)"
  by (simp add: AmenitiesCarousel_updateCarousel_def Let_def)

lemma AmenitiesCarousel_updateCarousel_fields:
  "currentIndex (state_of (AmenitiesCarousel_updateCarousel env s)) = currentIndex s"
  "isMobile (state_of (AmenitiesCarousel_updateCarousel env s)) = isMobile s"
  "totalCards (state_of (AmenitiesCarousel_updateCarousel env s)) = totalCards s"
  "carousel (state_of (AmenitiesCarousel_updateCarousel env s)) = carousel s"
  "swipe (state_of (AmenitiesCarousel_updateCarousel env s)) = swipe s"
  "isScrolling (state_of (AmenitiesCarousel_updateCarousel env s))"
  by (cases "cardWidths env";
      simp add: AmenitiesCarousel_updateCarousel_Normal AmenitiesCarousel_updateCarousel_Thrown
                AmenitiesCarousel_updateUI_fields)+

lemma AmenitiesCarousel_updateCarousel_threw:
  "threw (AmenitiesCarousel_updateCarousel env s) = (cardWidths env = [])"
  by (cases "cardWidths env";
      simp add: AmenitiesCarousel_updateCarousel_Normal AmenitiesCarousel_updateCarousel_Thrown)

subsection \<open>The bound \<open>maxIndex\<close> in the operations\<close>

lemma RoomsCarousel_updateUI_arrows:
  "leftArrow (RoomsCarousel_updateUI s) = map_option (\<lambda>_. currentIndex s = 0) (leftArrow s)"
  "rightArrow (RoomsCarousel_updateUI s) =
     map_option (\<lambda>_. currentIndex s \<ge> RoomsCarousel_maxIndex s) (rightArrow s)"
  by (auto simp add: RoomsCarousel_updateUI_def RoomsCarousel_maxIndex_def Let_def
            split: option.splits)

lemma AmenitiesCarousel_updateUI_arrows:
  "leftArrow (AmenitiesCarousel_updateUI s) = map_option (\<lambda>_. currentIndex s = 0) (leftArrow s)"
  "rightArrow (AmenitiesCarousel_updateUI s) =
     map_option (\<lambda>_. currentIndex s \<ge> AmenitiesCarousel_maxIndex s) (rightArrow s)"
  by (auto simp add: AmenitiesCarousel_updateUI_def AmenitiesCarousel_maxIndex_def Let_def
            split: option.splits)

lemma RoomsCarousel_goToNext_index:
  "currentIndex (state_of (RoomsCarousel_goToNext env s)) =
     (if currentIndex s < RoomsCarousel_maxIndex s then currentIndex s + 1 else currentIndex s)"
  by (simp add: RoomsCarousel_goToNext_def RoomsCarousel_maxIndex_def Let_def
                RoomsCarousel_updateCarousel_fields)

lemma AmenitiesCarousel_goToNext_index:
  "currentIndex (state_of (AmenitiesCarousel_goToNext env s)) =
     (if currentIndex s < AmenitiesCarousel_maxIndex s then currentIndex s + 1
      else currentIndex s)"
  by (simp add: AmenitiesCarousel_goToNext_def AmenitiesCarousel_maxIndex_def Let_def
                AmenitiesCarousel_updateCarousel_fields)

lemma RoomsCarousel_syncWithScroll_idle:
  assumes "\<not> isScrolling s" "cardWidths env = w # ws"
  shows "RoomsCarousel_syncWithScroll env s =
     (let newIndex = spec_scrollIndex (isMobile s) (scrollLeft env) (int w + 30)
                       (scrollWidth env - clientWidth env) (RoomsCarousel_maxIndex s)
                       (totalRooms s)
      in if newIndex \<noteq> currentIndex s
         then Normal (RoomsCarousel_updateUI (s\<lparr>currentIndex := newIndex\<rparr>))
         else Normal s)"
  using assms
  by (simp add: RoomsCarousel_syncWithScroll_def spec_scrollIndex_def clamp_def
                RoomsCarousel_maxIndex_def Let_def)

lemma AmenitiesCarousel_syncWithScroll_idle:
  assumes "\<not> isScrolling s" "cardWidths env = w # ws"
  shows "AmenitiesCarousel_syncWithScroll env s =
     (let newIndex = spec_scrollIndex (isMobile s) (scrollLeft env) (int w + 20)
                       (scrollWidth env - clientWidth env) (AmenitiesCarousel_maxIndex s)
                       (totalCards s)
      in if newIndex \<noteq> currentIndex s
         then Normal (AmenitiesCarousel_updateUI (s\<lparr>currentIndex := newIndex\<rparr>))
         else Normal s)"
  using assms
  by (simp add: AmenitiesCarousel_syncWithScroll_def spec_scrollIndex_def clamp_def
                AmenitiesCarousel_maxIndex_def Let_def)

lemma RoomsCarousel_syncWithScroll_index:
  assumes "\<not> isScrolling s" "cardWidths env = w # ws"
  shows "currentIndex (state_of (RoomsCarousel_syncWithScroll env s)) =
           spec_scrollIndex (isMobile s) (scrollLeft env) (int w + 30)
             (scrollWidth env - clientWidth env) (RoomsCarousel_maxIndex s) (totalRooms s)"
  by (simp add: RoomsCarousel_syncWithScroll_idle [OF assms] Let_def
                RoomsCarousel_updateUI_fields)

lemma AmenitiesCarousel_syncWithScroll_index:
  assumes "\<not> isScrolling s" "cardWidths env = w # ws"
  shows "currentIndex (state_of (AmenitiesCarousel_syncWithScroll env s)) =
           spec_scrollIndex (isMobile s) (scrollLeft env) (int w + 20)
             (scrollWidth env - clientWidth env) (AmenitiesCarousel_maxIndex s) (totalCards s)"
  by (simp add: AmenitiesCarousel_syncWithScroll_idle [OF assms] Let_def
                AmenitiesCarousel_updateUI_fields)

text \<open>The same for the versions in binary64 arithmetic.\<close>

lemma RoomsCarousel_syncWithScroll_binary64_idle:
  assumes "\<not> isScrolling s" "cardWidths env = w # ws"
  shows "RoomsCarousel_syncWithScroll_binary64 env s =
     (let newIndex = spec_scrollIndex_binary64 (isMobile s) (scrollLeft env) (int w + 30)
                       (scrollWidth env - clientWidth env) (RoomsCarousel_maxIndex s)
                       (totalRooms s)
      in if newIndex \<noteq> currentIndex s
         then Normal (RoomsCarousel_updateUI (s\<lparr>currentIndex := newIndex\<rparr>))
         else Normal s)"
  using assms
  by (simp add: RoomsCarousel_syncWithScroll_binary64_def spec_scrollIndex_binary64_def
                clamp_def RoomsCarousel_maxIndex_def Let_def)

lemma AmenitiesCarousel_syncWithScroll_binary64_idle:
  assumes "\<not> isScrolling s" "cardWidths env = w # ws"
  shows "AmenitiesCarousel_syncWithScroll_binary64 env s =
     (let newIndex = spec_scrollIndex_binary64 (isMobile s) (scrollLeft env) (int w + 20)
                       (scrollWidth env - clientWidth env) (AmenitiesCarousel_maxIndex s)
                       (totalCards s)
      in if newIndex \<noteq> currentIndex s
         then Normal (AmenitiesCarousel_updateUI (s\<lparr>currentIndex := newIndex\<rparr>))
         else Normal s)"
  using assms
  by (simp add: AmenitiesCarousel_syncWithScroll_binary64_def spec_scrollIndex_binary64_def
                clamp_def AmenitiesCarousel_maxIndex_def Let_def)

lemma RoomsCarousel_syncWithScroll_binary64_index:
  assumes "\<not> isScrolling s" "cardWidths env = w # ws"
  shows "currentIndex (state_of (RoomsCarousel_syncWithScroll_binary64 env s)) =
           spec_scrollIndex_binary64 (isMobile s) (scrollLeft env) (int w + 30)
             (scrollWidth env - clientWidth env) (RoomsCarousel_maxIndex s) (totalRooms s)"
  by (simp add: RoomsCarousel_syncWithScroll_binary64_idle [OF assms] Let_def
                RoomsCarousel_updateUI_fields)

lemma AmenitiesCarousel_syncWithScroll_binary64_index:
  assumes "\<not> isScrolling s" "cardWidths env = w # ws"
  shows "currentIndex (state_of (AmenitiesCarousel_syncWithScroll_binary64 env s)) =
           spec_scrollIndex_binary64 (isMobile s) (scrollLeft env) (int w + 20)
             (scrollWidth env - clientWidth env) (AmenitiesCarousel_maxIndex s) (totalCards s)"
  by (simp add: AmenitiesCarousel_syncWithScroll_binary64_idle [OF assms] Let_def
                AmenitiesCarousel_updateUI_fields)

lemma RoomsCarousel_maxIndex_spec:
  "RoomsCarousel_maxIndex r =
     (if isMobile r
      then (if 1 \<le> totalRooms r
            then spec_maxIndex (totalRooms r) (spec_visibleCount True 3) else - 1)
      else (if 3 \<le> totalRooms r
            then spec_maxIndex (totalRooms r) (spec_visibleCount False 3) + 1
            else int (totalRooms r) - 2))"
  by (simp add: RoomsCarousel_maxIndex_def spec_maxIndex_def spec_visibleCount_def)

lemma AmenitiesCarousel_maxIndex_spec:
  "AmenitiesCarousel_maxIndex a =
     (if isMobile a \<and> totalCards a = 0 then - 1
      else spec_maxIndex (totalCards a) (spec_visibleCount (isMobile a) 4))"
  by (simp add: AmenitiesCarousel_maxIndex_def spec_maxIndex_def spec_visibleCount_def)


subsection \<open>The trace of calls\<close>

lemma new_calls_append: "new_calls xs (xs @ ys) = ys"
  by (simp add: new_calls_def)

lemma new_calls_same: "new_calls xs xs = []"
  by (simp add: new_calls_def)

subsection \<open>The value of maxIndex\<close>

text \<open>
  Claim C3, as amended. The bound \<open>maxIndex\<close> that \<open>goToNext\<close> compares with, that
  disables the next-control and that \<open>syncWithScroll\<close> clamps to (in exact and in
  binary64 arithmetic) is, in narrow mode,
  \<open>itemCount - 1\<close> for both instances: the specification's formula with
  \<open>visibleCount = 1\<close> when there is an item, and -1 when there is none. In wide mode it
  is, for the amenities, \<open>max(0, itemCount - 4)\<close>, the specification's formula with
  \<open>visibleCount = 4\<close>; for the rooms it is \<open>itemCount - 2\<close>, with no floor at 0: one
  more than the specification's formula with \<open>visibleCount = 3\<close> when
  \<open>itemCount \<ge> 3\<close>.
\<close>

theorem C3_maxIndex_in_code:
  "RoomsCarousel_maxIndex r =
     (if isMobile r
      then (if 1 \<le> totalRooms r
            then spec_maxIndex (totalRooms r) (spec_visibleCount True 3) else - 1)
      else (if 3 \<le> totalRooms r
            then spec_maxIndex (totalRooms r) (spec_visibleCount False 3) + 1
            else int (totalRooms r) - 2)) \<and>
   AmenitiesCarousel_maxIndex a =
     (if isMobile a \<and> totalCards a = 0 then - 1
      else spec_maxIndex (totalCards a) (spec_visibleCount (isMobile a) 4)) \<and>
   currentIndex (state_of (RoomsCarousel_goToNext envR r)) =
     (if currentIndex r < RoomsCarousel_maxIndex r then currentIndex r + 1
      else currentIndex r) \<and>
   currentIndex (state_of (AmenitiesCarousel_goToNext envA a)) =
     (if currentIndex a < AmenitiesCarousel_maxIndex a then currentIndex a + 1
      else currentIndex a) \<and>
   rightArrow (RoomsCarousel_updateUI r) =
     map_option (\<lambda>_. currentIndex r \<ge> RoomsCarousel_maxIndex r) (rightArrow r) \<and>
   rightArrow (AmenitiesCarousel_updateUI a) =
     map_option (\<lambda>_. currentIndex a \<ge> AmenitiesCarousel_maxIndex a) (rightArrow a) \<and>
   (\<not> isScrolling r \<and> cardWidths envR = w # ws \<longrightarrow>
      currentIndex (state_of (RoomsCarousel_syncWithScroll envR r)) =
        spec_scrollIndex (isMobile r) (scrollLeft envR) (int w + 30)
          (scrollWidth envR - clientWidth envR) (RoomsCarousel_maxIndex r) (totalRooms r)) \<and>
   (\<not> isScrolling a \<and> cardWidths envA = v # vs \<longrightarrow>
      currentIndex (state_of (AmenitiesCarousel_syncWithScroll envA a)) =
        spec_scrollIndex (isMobile a) (scrollLeft envA) (int v + 20)
          (scrollWidth envA - clientWidth envA) (AmenitiesCarousel_maxIndex a) (totalCards a)) \<and>
   (\<not> isScrolling r \<and> cardWidths envR = w # ws \<longrightarrow>
      currentIndex (state_of (RoomsCarousel_syncWithScroll_binary64 envR r)) =
        spec_scrollIndex_binary64 (isMobile r) (scrollLeft envR) (int w + 30)
          (scrollWidth envR - clientWidth envR) (RoomsCarousel_maxIndex r) (totalRooms r)) \<and>
   (\<not> isScrolling a \<and> cardWidths envA = v # vs \<longrightarrow>
      currentIndex (state_of (AmenitiesCarousel_syncWithScroll_binary64 envA a)) =
        spec_scrollIndex_binary64 (isMobile a) (scrollLeft envA) (int v + 20)
          (scrollWidth envA - clientWidth envA) (AmenitiesCarousel_maxIndex a) (totalCards a))"
  using RoomsCarousel_maxIndex_spec [of r] AmenitiesCarousel_maxIndex_spec [of a]
        RoomsCarousel_goToNext_index [of envR r] AmenitiesCarousel_goToNext_index [of envA a]
        RoomsCarousel_updateUI_arrows(2) [of r] AmenitiesCarousel_updateUI_arrows(2) [of a]
        RoomsCarousel_syncWithScroll_index [of r envR w ws]
        AmenitiesCarousel_syncWithScroll_index [of a envA v vs]
        RoomsCarousel_syncWithScroll_binary64_index [of r envR w ws]
        AmenitiesCarousel_syncWithScroll_binary64_index [of a envA v vs]
  by blast

text \<open>The theorem at the two wide samples, idle, over five cards of 300px.\<close>

theorem C3_maxIndex_in_code_witness:
  "\<not> isScrolling rooms_wide_idle \<and> cardWidths wide_dom = 300 # [300, 300, 300, 300] \<and>
   \<not> isScrolling amenities_wide_idle \<and>
   currentIndex (state_of (RoomsCarousel_syncWithScroll wide_dom rooms_wide_idle)) =
     spec_scrollIndex (isMobile rooms_wide_idle) (scrollLeft wide_dom) (int 300 + 30)
       (scrollWidth wide_dom - clientWidth wide_dom) (RoomsCarousel_maxIndex rooms_wide_idle)
       (totalRooms rooms_wide_idle) \<and>
   currentIndex (state_of (AmenitiesCarousel_syncWithScroll wide_dom amenities_wide_idle)) =
     spec_scrollIndex (isMobile amenities_wide_idle) (scrollLeft wide_dom) (int 300 + 20)
       (scrollWidth wide_dom - clientWidth wide_dom)
       (AmenitiesCarousel_maxIndex amenities_wide_idle) (totalCards amenities_wide_idle)"
proof -
  have idle: "\<not> isScrolling rooms_wide_idle" "\<not> isScrolling amenities_wide_idle"
    by code_simp+
  have cards: "cardWidths wide_dom = 300 # [300, 300, 300, 300]"
    by (simp add: wide_dom_def)
  from C3_maxIndex_in_code [of rooms_wide_idle amenities_wide_idle wide_dom wide_dom
         300 "[300, 300, 300, 300]" 300 "[300, 300, 300, 300]"] idle cards
  show ?thesis by blast
qed

text \<open>
  Claim C3 as stated fails for the rooms in wide mode: with five cards the formula gives
  \<open>5 - 3 = 2\<close>, yet three clicks on the next-control lead to index 3, and at index 2
  the render step leaves the next-control enabled.
\<close>

theorem C3_rooms_wide_bound_differs:
  "\<not> isMobile rooms_wide \<and> totalRooms rooms_wide = 5 \<and>
   spec_maxIndex (totalRooms rooms_wide) (spec_visibleCount (isMobile rooms_wide) 3) = 2 \<and>
   currentIndex (RoomsCarousel_run
     [(Click RoomsRightArrow, wide_dom), (Click RoomsRightArrow, wide_dom),
      (Click RoomsRightArrow, wide_dom)] rooms_wide) = 3 \<and>
   rightArrow (RoomsCarousel_updateUI (rooms_wide\<lparr>currentIndex := 2\<rparr>)) = Some False"
  by code_simp

subsection \<open>syncWithScroll\<close>

text \<open>
  Claim C5, as amended. On a container that holds a card, \<open>syncWithScroll\<close> of either
  class returns the state unchanged while \<open>isScrolling\<close> is set. Otherwise it sets
  \<open>currentIndex\<close> as follows, every quotient and product being rounded to binary64
  before \<open>Math.round\<close>: in narrow mode to \<open>round(scrollLeft / (cardWidth + gap))\<close>
  clamped to \<open>[0, itemCount - 1]\<close>; in wide mode to
  \<open>round((scrollLeft / maxScroll) * maxIndex)\<close> clamped to \<open>[0, maxIndex]\<close> when
  \<open>maxScroll > 0\<close>, else 0, where \<open>maxIndex\<close> is the bound the code computes
  (\<open>itemCount - 2\<close> for the rooms, \<open>max(0, itemCount - 4)\<close> for the amenities). It calls
  the render step exactly when that index differs from the stored one, and changes nothing
  when it does not.
\<close>

theorem C5_syncWithScroll_binary64:
  assumes "cardWidths envR = w # ws" and "cardWidths envA = v # vs"
  shows
   "RoomsCarousel_syncWithScroll_binary64 envR r =
      (if isScrolling r
         \<or> spec_scrollIndex_binary64 (isMobile r) (scrollLeft envR) (int w + 30)
              (scrollWidth envR - clientWidth envR) (RoomsCarousel_maxIndex r) (totalRooms r)
            = currentIndex r
       then Normal r
       else Normal (RoomsCarousel_updateUI
              (r\<lparr>currentIndex :=
                    spec_scrollIndex_binary64 (isMobile r) (scrollLeft envR) (int w + 30)
                      (scrollWidth envR - clientWidth envR) (RoomsCarousel_maxIndex r)
                      (totalRooms r)\<rparr>))) \<and>
    currentIndex (state_of (RoomsCarousel_syncWithScroll_binary64 envR r)) =
      (if isScrolling r then currentIndex r
       else spec_scrollIndex_binary64 (isMobile r) (scrollLeft envR) (int w + 30)
              (scrollWidth envR - clientWidth envR) (RoomsCarousel_maxIndex r) (totalRooms r)) \<and>
    new_calls (calls r) (calls (state_of (RoomsCarousel_syncWithScroll_binary64 envR r))) =
      (if isScrolling r
         \<or> spec_scrollIndex_binary64 (isMobile r) (scrollLeft envR) (int w + 30)
              (scrollWidth envR - clientWidth envR) (RoomsCarousel_maxIndex r) (totalRooms r)
            = currentIndex r
       then [] else [UpdateUI]) \<and>
    AmenitiesCarousel_syncWithScroll_binary64 envA a =
      (if isScrolling a
         \<or> spec_scrollIndex_binary64 (isMobile a) (scrollLeft envA) (int v + 20)
              (scrollWidth envA - clientWidth envA) (AmenitiesCarousel_maxIndex a)
              (totalCards a)
            = currentIndex a
       then Normal a
       else Normal (AmenitiesCarousel_updateUI
              (a\<lparr>currentIndex :=
                    spec_scrollIndex_binary64 (isMobile a) (scrollLeft envA) (int v + 20)
                      (scrollWidth envA - clientWidth envA) (AmenitiesCarousel_maxIndex a)
                      (totalCards a)\<rparr>))) \<and>
    currentIndex (state_of (AmenitiesCarousel_syncWithScroll_binary64 envA a)) =
      (if isScrolling a then currentIndex a
       else spec_scrollIndex_binary64 (isMobile a) (scrollLeft envA) (int v + 20)
              (scrollWidth envA - clientWidth envA) (AmenitiesCarousel_maxIndex a)
              (totalCards a)) \<and>
    new_calls (calls a) (calls (state_of (AmenitiesCarousel_syncWithScroll_binary64 envA a))) =
      (if isScrolling a
         \<or> spec_scrollIndex_binary64 (isMobile a) (scrollLeft envA) (int v + 20)
              (scrollWidth envA - clientWidth envA) (AmenitiesCarousel_maxIndex a)
              (totalCards a)
            = currentIndex a
       then [] else [UpdateUI])"
proof -
  let ?n = "spec_scrollIndex_binary64 (isMobile r) (scrollLeft envR) (int w + 30)
              (scrollWidth envR - clientWidth envR) (RoomsCarousel_maxIndex r) (totalRooms r)"
  let ?k = "spec_scrollIndex_binary64 (isMobile a) (scrollLeft envA) (int v + 20)
              (scrollWidth envA - clientWidth envA) (AmenitiesCarousel_maxIndex a)
              (totalCards a)"
  have busyR: "isScrolling r \<Longrightarrow> RoomsCarousel_syncWithScroll_binary64 envR r = Normal r"
    by (simp add: RoomsCarousel_syncWithScroll_binary64_def)
  have busyA: "isScrolling a \<Longrightarrow> AmenitiesCarousel_syncWithScroll_binary64 envA a = Normal a"
    by (simp add: AmenitiesCarousel_syncWithScroll_binary64_def)
  have R: "RoomsCarousel_syncWithScroll_binary64 envR r =
      (if isScrolling r \<or> ?n = currentIndex r then Normal r
       else Normal (RoomsCarousel_updateUI (r\<lparr>currentIndex := ?n\<rparr>)))"
    using busyR RoomsCarousel_syncWithScroll_binary64_idle [OF _ assms(1), of r]
    by (cases "isScrolling r") (simp_all add: Let_def)
  have A: "AmenitiesCarousel_syncWithScroll_binary64 envA a =
      (if isScrolling a \<or> ?k = currentIndex a then Normal a
       else Normal (AmenitiesCarousel_updateUI (a\<lparr>currentIndex := ?k\<rparr>)))"
    using busyA AmenitiesCarousel_syncWithScroll_binary64_idle [OF _ assms(2), of a]
    by (cases "isScrolling a") (simp_all add: Let_def)
  have Ri: "currentIndex (state_of (RoomsCarousel_syncWithScroll_binary64 envR r)) =
      (if isScrolling r then currentIndex r else ?n)"
    by (simp add: R RoomsCarousel_updateUI_fields)
  have Rc: "new_calls (calls r) (calls (state_of (RoomsCarousel_syncWithScroll_binary64 envR r))) =
      (if isScrolling r \<or> ?n = currentIndex r then [] else [UpdateUI])"
    by (simp add: R RoomsCarousel_updateUI_fields new_calls_append new_calls_same)
  have Ai: "currentIndex (state_of (AmenitiesCarousel_syncWithScroll_binary64 envA a)) =
      (if isScrolling a then currentIndex a else ?k)"
    by (simp add: A AmenitiesCarousel_updateUI_fields)
  have Ac: "new_calls (calls a)
        (calls (state_of (AmenitiesCarousel_syncWithScroll_binary64 envA a))) =
      (if isScrolling a \<or> ?k = currentIndex a then [] else [UpdateUI])"
    by (simp add: A AmenitiesCarousel_updateUI_fields new_calls_append new_calls_same)
  from R Ri Rc A Ai Ac show ?thesis by blast
qed

text \<open>
  The theorem at scroll offset 400: the idle wide rooms move to index 2
  (\<open>400 / 660 * 3\<close> is about 1.82), the wide rooms that are still scrolling stay at 0, and
  the idle narrow amenities move to index 1 (\<open>400 / 320 = 1.25\<close>).
\<close>

theorem C5_syncWithScroll_binary64_witness:
  "cardWidths (wide_dom\<lparr>scrollLeft := 400\<rparr>) = 300 # [300, 300, 300, 300] \<and>
   cardWidths (narrow_dom\<lparr>scrollLeft := 400\<rparr>) = 300 # [300, 300] \<and>
   currentIndex (state_of (RoomsCarousel_syncWithScroll_binary64 (wide_dom\<lparr>scrollLeft := 400\<rparr>)
                             rooms_wide_idle)) = 2 \<and>
   currentIndex (state_of (RoomsCarousel_syncWithScroll_binary64 (wide_dom\<lparr>scrollLeft := 400\<rparr>)
                             rooms_wide)) = 0 \<and>
   currentIndex (state_of (AmenitiesCarousel_syncWithScroll_binary64
                             (narrow_dom\<lparr>scrollLeft := 400\<rparr>) amenities_narrow_idle)) = 1"
proof -
  have cardsR: "cardWidths (wide_dom\<lparr>scrollLeft := 400\<rparr>) = 300 # [300, 300, 300, 300]"
    by (simp add: wide_dom_def)
  have cardsA: "cardWidths (narrow_dom\<lparr>scrollLeft := 400\<rparr>) = 300 # [300, 300]"
    by (simp add: narrow_dom_def)
  have vals:
    "(if isScrolling rooms_wide_idle then currentIndex rooms_wide_idle
      else spec_scrollIndex_binary64 (isMobile rooms_wide_idle)
             (scrollLeft (wide_dom\<lparr>scrollLeft := 400\<rparr>)) (int 300 + 30)
             (scrollWidth (wide_dom\<lparr>scrollLeft := 400\<rparr>)
                - clientWidth (wide_dom\<lparr>scrollLeft := 400\<rparr>))
             (RoomsCarousel_maxIndex rooms_wide_idle) (totalRooms rooms_wide_idle)) = 2"
    "(if isScrolling rooms_wide then currentIndex rooms_wide
      else spec_scrollIndex_binary64 (isMobile rooms_wide)
             (scrollLeft (wide_dom\<lparr>scrollLeft := 400\<rparr>)) (int 300 + 30)
             (scrollWidth (wide_dom\<lparr>scrollLeft := 400\<rparr>)
                - clientWidth (wide_dom\<lparr>scrollLeft := 400\<rparr>))
             (RoomsCarousel_maxIndex rooms_wide) (totalRooms rooms_wide)) = 0"
    "(if isScrolling amenities_narrow_idle then currentIndex amenities_narrow_idle
      else spec_scrollIndex_binary64 (isMobile amenities_narrow_idle)
             (scrollLeft (narrow_dom\<lparr>scrollLeft := 400\<rparr>)) (int 300 + 20)
             (scrollWidth (narrow_dom\<lparr>scrollLeft := 400\<rparr>)
                - clientWidth (narrow_dom\<lparr>scrollLeft := 400\<rparr>))
             (AmenitiesCarousel_maxIndex amenities_narrow_idle)
             (totalCards amenities_narrow_idle)) = 1"
    by code_simp+
  from C5_syncWithScroll_binary64 [OF cardsR cardsA, of rooms_wide_idle amenities_narrow_idle]
       C5_syncWithScroll_binary64 [OF cardsR cardsA, of rooms_wide amenities_narrow_idle]
       cardsR cardsA
  show ?thesis unfolding vals by blast
qed

text \<open>
  Claim C5 as stated fails. Its \<open>maxIndex\<close> is that of the specification,
  \<open>itemCount - visibleCount\<close>: 2 for five rooms, three visible. At full scroll (660 of
  660) the code sets the index to 3, and the claimed formula gives 2, in exact and in
  binary64 arithmetic alike. And with the quotient and the product taken exactly the
  formula differs from the code even under the code's bound: over thirteen rooms at
  offset 2250 of 3300 the exact value \<open>2250 / 3300 * 11\<close> is 7.5, which rounds to 8, while
  the code rounds the quotient and the product to binary64, gets a value just below 7.5,
  and sets the index to 7.
\<close>

theorem C5_claimed_index_differs:
  "\<not> isScrolling rooms_wide_idle \<and>
   currentIndex (state_of (RoomsCarousel_syncWithScroll_binary64
                             (wide_dom\<lparr>scrollLeft := 660\<rparr>) rooms_wide_idle)) = 3 \<and>
   spec_maxIndex (totalRooms rooms_wide_idle)
     (spec_visibleCount (isMobile rooms_wide_idle) 3) = 2 \<and>
   spec_scrollIndex False 660 330 660 2 5 = 2 \<and>
   spec_scrollIndex_binary64 False 660 330 660 2 5 = 2 \<and>
   \<not> isScrolling rooms_thirteen_idle \<and>
   RoomsCarousel_maxIndex rooms_thirteen_idle = 11 \<and>
   currentIndex (state_of (RoomsCarousel_syncWithScroll_binary64 thirteen_dom
                             rooms_thirteen_idle)) = 7 \<and>
   spec_scrollIndex False 2250 330 3300 11 13 = 8"
  by code_simp

text \<open>The rounded index lies within the bounds it is clamped to.\<close>

lemma spec_scrollIndex_binary64_range:
  assumes "0 \<le> M" and "narrow \<longrightarrow> M = int n - 1"
  shows "0 \<le> spec_scrollIndex_binary64 narrow x p maxScroll M n \<and>
         spec_scrollIndex_binary64 narrow x p maxScroll M n \<le> M"
  using assms by (auto simp add: spec_scrollIndex_binary64_def clamp_def)

subsection \<open>From an index to its scroll target and back\<close>

lemma round_trip_narrow:
  fixes p k :: int
  assumes "0 < p"
  shows "round ((of_int (p * k) :: rat) / of_int p) = k"
proof -
  have "(of_int (p * k) :: rat) / of_int p = of_int k"
    using assms by simp
  then show ?thesis by simp
qed

lemma round_trip_wide:
  fixes p k M :: int
  assumes "0 < p * M"
  shows "round (((of_int (p * k) :: rat) / of_int (p * M)) * of_int M) = k"
proof -
  from assms have "p \<noteq> 0" "M \<noteq> 0" by auto
  then have "((of_int (p * k) :: rat) / of_int (p * M)) * of_int M = of_int k"
    by simp
  then show ?thesis by simp
qed

lemma spec_scrollIndex_target:
  fixes p k M :: int
  assumes "0 < p" "0 \<le> k" "k \<le> M" "narrow \<longrightarrow> M = int n - 1"
      and "narrow \<or> k = 0 \<or> maxScroll = p * M"
  shows "spec_scrollIndex narrow (of_int (p * k)) p maxScroll M n = k"
proof (cases narrow)
  case True
  with assms round_trip_narrow [of p k] show ?thesis
    by (simp add: spec_scrollIndex_def clamp_def)
next
  case False
  show ?thesis
  proof (cases "k = 0")
    case True
    with False assms show ?thesis
      by (simp add: spec_scrollIndex_def clamp_def)
  next
    case k: False
    with False assms have ms: "maxScroll = p * M" by blast
    from k assms have "0 < M" by simp
    with assms have pos: "0 < p * M" by simp
    with ms False assms round_trip_wide [OF pos, of k] show ?thesis
      by (simp add: spec_scrollIndex_def clamp_def)
  qed
qed

lemma RoomsCarousel_goToSlide_calls:
  "cardWidths env = w # ws \<Longrightarrow>
   new_calls (calls s) (calls (state_of (RoomsCarousel_goToSlide i env s))) =
     [ScrollTo ((int w + 30) * i), UpdateUI, SetTimeout 500]"
  by (simp add: RoomsCarousel_goToSlide_def RoomsCarousel_updateCarousel_Normal new_calls_def)

text \<open>
  In binary64 arithmetic the quotient and the product are each off by at most \<open>2^-53\<close>
  of their value, which keeps the rounded result within a half of \<open>k\<close> for every
  \<open>k\<close> below \<open>2^50\<close>.
\<close>

lemma round_trip_narrow_binary64:
  fixes p k :: int
  assumes "0 < p" and "0 \<le> k" and "k < 2 ^ 50"
  shows "round (binary64 ((of_int (p * k) :: rat) / of_int p)) = k"
proof -
  have x: "(of_int (p * k) :: rat) / of_int p = of_int k"
    using assms(1) by simp
  have "\<bar>binary64 (of_int k) - (of_int k :: rat)\<bar> \<le> \<bar>of_int k\<bar> / 2 ^ 53"
    by (rule binary64_error)
  also have "\<dots> = of_int k / 2 ^ 53"
    using assms(2) by simp
  also have "\<dots> < 1 / 2"
  proof -
    from assms(3) have "(of_int k :: rat) < of_int (2 ^ 50)"
      by (simp only: of_int_less_iff)
    then show ?thesis by simp
  qed
  finally show ?thesis
    unfolding x by (rule round_near)
qed

lemma round_trip_wide_binary64:
  fixes p k M :: int
  assumes "0 < p * M" and "0 \<le> k" and "k \<le> M" and "M < 2 ^ 50"
  shows "round (binary64 (binary64 ((of_int (p * k) :: rat) / of_int (p * M)) * of_int M)) = k"
proof -
  from assms have nz: "p \<noteq> 0" "M \<noteq> 0" by auto
  from assms have Mpos: "0 < M" by (cases "M = 0") auto
  define x :: rat where "x = of_int k / of_int M"
  define q where "q = binary64 x"
  define y where "y = binary64 (q * of_int M)"
  have quot: "(of_int (p * k) :: rat) / of_int (p * M) = x"
    using nz by (simp add: x_def)
  have x0: "0 \<le> x" using assms(2) Mpos by (simp add: x_def)
  have xM: "x * of_int M = of_int k" using nz by (simp add: x_def)
  have kb: "(of_int k :: rat) < 2 ^ 50"
  proof -
    from assms(3,4) have "k < 2 ^ 50" by simp
    then have "(of_int k :: rat) < of_int (2 ^ 50)" by (simp only: of_int_less_iff)
    then show ?thesis by simp
  qed
  have k0: "(0::rat) \<le> of_int k" using assms(2) by simp
  have "\<bar>q - x\<bar> \<le> x / 2 ^ 53"
    using binary64_error [of x] x0 by (simp add: q_def)
  then have "\<bar>q - x\<bar> * of_int M \<le> (x / 2 ^ 53) * of_int M"
    using Mpos by (intro mult_right_mono) simp_all
  moreover have "\<bar>q * of_int M - of_int k\<bar> = \<bar>q - x\<bar> * of_int M"
  proof -
    have "q * of_int M - of_int k = (q - x) * of_int M"
      by (simp add: xM [symmetric] algebra_simps)
    then show ?thesis using Mpos by (simp add: abs_mult)
  qed
  moreover have "(x / 2 ^ 53) * of_int M = of_int k / 2 ^ 53"
    using xM by (simp add: field_simps)
  ultimately have e1: "\<bar>q * of_int M - of_int k\<bar> \<le> of_int k / 2 ^ 53"
    by simp
  then have qM: "\<bar>q * of_int M\<bar> \<le> of_int k + of_int k / 2 ^ 53"
    using k0 by linarith
  have "\<bar>y - q * of_int M\<bar> \<le> \<bar>q * of_int M\<bar> / 2 ^ 53"
    unfolding y_def by (rule binary64_error)
  also have "\<dots> \<le> (of_int k + of_int k / 2 ^ 53) / 2 ^ 53"
    using qM by (intro divide_right_mono) simp_all
  finally have e2: "\<bar>y - q * of_int M\<bar> \<le> (of_int k + of_int k / 2 ^ 53) / 2 ^ 53" .
  have "\<bar>y - of_int k\<bar> \<le> \<bar>y - q * of_int M\<bar> + \<bar>q * of_int M - of_int k\<bar>"
    by simp
  also have "\<dots> \<le> (of_int k + of_int k / 2 ^ 53) / 2 ^ 53 + of_int k / 2 ^ 53"
    using e1 e2 by simp
  also have "\<dots> \<le> of_int k * (3 / 2 ^ 53)"
    using k0 by (simp add: field_simps)
  also have "\<dots> < 2 ^ 50 * (3 / 2 ^ 53)"
    using kb by (intro mult_strict_right_mono) simp_all
  also have "\<dots> < (1 / 2 :: rat)" by simp
  finally have "\<bar>y - of_int k\<bar> < 1 / 2" .
  then have "round y = k" by (rule round_near)
  then show ?thesis unfolding quot y_def q_def .
qed

lemma spec_scrollIndex_binary64_target:
  fixes p k M :: int
  assumes "0 < p" "0 \<le> k" "k \<le> M" "M < 2 ^ 50" "narrow \<longrightarrow> M = int n - 1"
      and "narrow \<or> k = 0 \<or> maxScroll = p * M"
  shows "spec_scrollIndex_binary64 narrow (of_int (p * k)) p maxScroll M n = k"
proof (cases narrow)
  case True
  from assms have "k < 2 ^ 50" by simp
  with True assms round_trip_narrow_binary64 [of p k] show ?thesis
    by (simp add: spec_scrollIndex_binary64_def clamp_def)
next
  case False
  show ?thesis
  proof (cases "k = 0")
    case True
    with False assms show ?thesis
      by (simp add: spec_scrollIndex_binary64_def clamp_def binary64_def)
  next
    case k: False
    with False assms have ms: "maxScroll = p * M" by blast
    from k assms have "0 < M" by simp
    with assms have pos: "0 < p * M" by simp
    with ms False assms round_trip_wide_binary64 [OF pos, of k] show ?thesis
      by (simp add: spec_scrollIndex_binary64_def clamp_def)
  qed
qed

lemma round_trip_binary64:
  assumes "cardWidths env = w # ws"
      and "0 \<le> k" and "k \<le> RoomsCarousel_maxIndex s"
      and "RoomsCarousel_maxIndex s < 2 ^ 50"
      and "isMobile s \<or> k = 0
           \<or> scrollWidth env - clientWidth env = (int w + 30) * RoomsCarousel_maxIndex s"
  shows "currentIndex (state_of (RoomsCarousel_syncWithScroll_binary64
            (env\<lparr>scrollLeft := of_int ((int w + 30) * k)\<rparr>)
            (RoomsCarousel_timeout (state_of (RoomsCarousel_goToSlide k env s))))) = k"
proof -
  let ?s1 = "state_of (RoomsCarousel_goToSlide k env s)"
  let ?env = "env\<lparr>scrollLeft := of_int ((int w + 30) * k)\<rparr>"
  have narrow: "isMobile s \<longrightarrow> RoomsCarousel_maxIndex s = int (totalRooms s) - 1"
    by (simp add: RoomsCarousel_maxIndex_def)
  have formula: "spec_scrollIndex_binary64 (isMobile s) (of_int ((int w + 30) * k)) (int w + 30)
           (scrollWidth env - clientWidth env) (RoomsCarousel_maxIndex s) (totalRooms s) = k"
    using spec_scrollIndex_binary64_target [of "int w + 30" k "RoomsCarousel_maxIndex s"
            "isMobile s" "totalRooms s" "scrollWidth env - clientWidth env"] assms narrow
    by simp
  have same: "isMobile ?s1 = isMobile s" "totalRooms ?s1 = totalRooms s"
    by (simp_all add: RoomsCarousel_goToSlide_def RoomsCarousel_updateCarousel_fields)
  have idle: "\<not> isScrolling (RoomsCarousel_timeout ?s1)"
    by (simp add: RoomsCarousel_timeout_def)
  have cards: "cardWidths ?env = w # ws"
    using assms(1) by simp
  have "currentIndex (state_of (RoomsCarousel_syncWithScroll_binary64 ?env
            (RoomsCarousel_timeout ?s1))) =
          spec_scrollIndex_binary64 (isMobile s) (of_int ((int w + 30) * k)) (int w + 30)
           (scrollWidth env - clientWidth env) (RoomsCarousel_maxIndex s) (totalRooms s)"
    using RoomsCarousel_syncWithScroll_binary64_index [OF idle cards] same
    by (simp add: RoomsCarousel_timeout_def RoomsCarousel_maxIndex_def)
  with formula show ?thesis by simp
qed

text \<open>
  Claim C6, as amended. For a rooms carousel over at least one card and \<open>k\<close> in
  \<open>[0, maxIndex]\<close>, \<open>goToSlide(k)\<close> scrolls to \<open>(cardWidth + gap) * k\<close>, and the
  index that \<open>syncWithScroll\<close> computes from that offset (once the scrolling flag is
  cleared) is \<open>k\<close> again in narrow mode; in wide mode it is \<open>k\<close> when \<open>k = 0\<close> or
  when the container's scroll range matches the index range, that is
  \<open>maxScroll = (cardWidth + gap) * maxIndex\<close>. This holds with the quotients and
  the product taken exactly, and in binary64 arithmetic for every carousel whose
  \<open>maxIndex\<close> is below \<open>2^50\<close>.
\<close>

theorem C6_round_trip:
  assumes "cardWidths env = w # ws"
      and "0 \<le> k" and "k \<le> RoomsCarousel_maxIndex s"
      and "isMobile s \<or> k = 0
           \<or> scrollWidth env - clientWidth env = (int w + 30) * RoomsCarousel_maxIndex s"
  shows "new_calls (calls s) (calls (state_of (RoomsCarousel_goToSlide k env s))) =
           [ScrollTo ((int w + 30) * k), UpdateUI, SetTimeout 500] \<and>
         spec_scrollIndex (isMobile s) (of_int ((int w + 30) * k)) (int w + 30)
           (scrollWidth env - clientWidth env) (RoomsCarousel_maxIndex s) (totalRooms s) = k \<and>
         currentIndex (state_of (RoomsCarousel_syncWithScroll
            (env\<lparr>scrollLeft := of_int ((int w + 30) * k)\<rparr>)
            (RoomsCarousel_timeout (state_of (RoomsCarousel_goToSlide k env s))))) = k \<and>
         (RoomsCarousel_maxIndex s < 2 ^ 50 \<longrightarrow>
            currentIndex (state_of (RoomsCarousel_syncWithScroll_binary64
               (env\<lparr>scrollLeft := of_int ((int w + 30) * k)\<rparr>)
               (RoomsCarousel_timeout (state_of (RoomsCarousel_goToSlide k env s))))) = k)"
proof -
  let ?s1 = "state_of (RoomsCarousel_goToSlide k env s)"
  let ?env = "env\<lparr>scrollLeft := of_int ((int w + 30) * k)\<rparr>"
  have rounded: "RoomsCarousel_maxIndex s < 2 ^ 50 \<longrightarrow>
      currentIndex (state_of (RoomsCarousel_syncWithScroll_binary64 ?env
        (RoomsCarousel_timeout ?s1))) = k"
    using round_trip_binary64 [OF assms(1,2,3) _ assms(4)] by blast
  have narrow: "isMobile s \<longrightarrow> RoomsCarousel_maxIndex s = int (totalRooms s) - 1"
    by (simp add: RoomsCarousel_maxIndex_def)
  have formula: "spec_scrollIndex (isMobile s) (of_int ((int w + 30) * k)) (int w + 30)
           (scrollWidth env - clientWidth env) (RoomsCarousel_maxIndex s) (totalRooms s) = k"
    using spec_scrollIndex_target [of "int w + 30" k "RoomsCarousel_maxIndex s" "isMobile s"
            "totalRooms s" "scrollWidth env - clientWidth env"] assms narrow
    by simp
  have same: "isMobile ?s1 = isMobile s" "totalRooms ?s1 = totalRooms s"
    by (simp_all add: RoomsCarousel_goToSlide_def RoomsCarousel_updateCarousel_fields)
  have idle: "\<not> isScrolling (RoomsCarousel_timeout ?s1)"
    by (simp add: RoomsCarousel_timeout_def)
  have cards: "cardWidths ?env = w # ws"
    using assms(1) by simp
  have "currentIndex (state_of (RoomsCarousel_syncWithScroll ?env (RoomsCarousel_timeout ?s1))) =
          spec_scrollIndex (isMobile s) (of_int ((int w + 30) * k)) (int w + 30)
           (scrollWidth env - clientWidth env) (RoomsCarousel_maxIndex s) (totalRooms s)"
    using RoomsCarousel_syncWithScroll_index [OF idle cards] same
    by (simp add: RoomsCarousel_timeout_def RoomsCarousel_maxIndex_def)
  with formula RoomsCarousel_goToSlide_calls [OF assms(1)] rounded show ?thesis
    by simp
qed

text \<open>
  The theorem at index 2 of the narrow sample, and at index 2 of the wide sample in the
  document whose scroll range matches.
\<close>

theorem C6_round_trip_witness:
  "cardWidths narrow_dom = 300 # [300, 300] \<and> (0::int) \<le> 2 \<and>
   2 \<le> RoomsCarousel_maxIndex rooms_narrow \<and> isMobile rooms_narrow \<and>
   currentIndex (state_of (RoomsCarousel_syncWithScroll
      (narrow_dom\<lparr>scrollLeft := of_int ((int 300 + 30) * 2)\<rparr>)
      (RoomsCarousel_timeout (state_of (RoomsCarousel_goToSlide 2 narrow_dom rooms_narrow))))) = 2 \<and>
   cardWidths wide_dom_matching = 300 # [300, 300, 300, 300] \<and>
   2 \<le> RoomsCarousel_maxIndex rooms_wide \<and> \<not> isMobile rooms_wide \<and>
   scrollWidth wide_dom_matching - clientWidth wide_dom_matching
     = (int 300 + 30) * RoomsCarousel_maxIndex rooms_wide \<and>
   currentIndex (state_of (RoomsCarousel_syncWithScroll
      (wide_dom_matching\<lparr>scrollLeft := of_int ((int 300 + 30) * 2)\<rparr>)
      (RoomsCarousel_timeout (state_of (RoomsCarousel_goToSlide 2 wide_dom_matching rooms_wide))))) = 2 \<and>
   RoomsCarousel_maxIndex rooms_narrow < 2 ^ 50 \<and> RoomsCarousel_maxIndex rooms_wide < 2 ^ 50 \<and>
   currentIndex (state_of (RoomsCarousel_syncWithScroll_binary64
      (narrow_dom\<lparr>scrollLeft := of_int ((int 300 + 30) * 2)\<rparr>)
      (RoomsCarousel_timeout (state_of (RoomsCarousel_goToSlide 2 narrow_dom rooms_narrow))))) = 2 \<and>
   currentIndex (state_of (RoomsCarousel_syncWithScroll_binary64
      (wide_dom_matching\<lparr>scrollLeft := of_int ((int 300 + 30) * 2)\<rparr>)
      (RoomsCarousel_timeout (state_of (RoomsCarousel_goToSlide 2 wide_dom_matching rooms_wide))))) = 2"
proof -
  have small: "RoomsCarousel_maxIndex rooms_narrow < 2 ^ 50"
    by code_simp
  have small': "RoomsCarousel_maxIndex rooms_wide < 2 ^ 50"
    by code_simp
  have cards: "cardWidths narrow_dom = 300 # [300, 300]"
    by (simp add: narrow_dom_def)
  have lo: "(0::int) \<le> 2" by simp
  have hi: "2 \<le> RoomsCarousel_maxIndex rooms_narrow" by code_simp
  have mode: "isMobile rooms_narrow" by code_simp
  then have geom: "isMobile rooms_narrow \<or> (2::int) = 0
     \<or> scrollWidth narrow_dom - clientWidth narrow_dom
         = (int 300 + 30) * RoomsCarousel_maxIndex rooms_narrow"
    by blast
  have cards': "cardWidths wide_dom_matching = 300 # [300, 300, 300, 300]"
    by (simp add: wide_dom_matching_def wide_dom_def)
  have hi': "2 \<le> RoomsCarousel_maxIndex rooms_wide" by code_simp
  have mode': "\<not> isMobile rooms_wide" by code_simp
  have range: "scrollWidth wide_dom_matching - clientWidth wide_dom_matching
     = (int 300 + 30) * RoomsCarousel_maxIndex rooms_wide"
    by code_simp
  then have geom': "isMobile rooms_wide \<or> (2::int) = 0
     \<or> scrollWidth wide_dom_matching - clientWidth wide_dom_matching
         = (int 300 + 30) * RoomsCarousel_maxIndex rooms_wide"
    by blast
  from C6_round_trip [OF cards lo hi geom] C6_round_trip [OF cards' lo hi' geom']
       cards lo hi mode cards' hi' mode' range small small'
  show ?thesis by blast
qed

text \<open>
  Claim C6 as stated fails in wide mode. Five cards of 300px, three visible:
  \<open>maxScroll = 1620 - 960 = 660\<close> and \<open>maxIndex = 3\<close>. \<open>goToSlide(1)\<close> scrolls to 330,
  and the index of 330 is \<open>round(330 / 660 * 3) = 2\<close>, in exact and in binary64
  arithmetic.
\<close>

theorem C6_wide_round_trip_fails:
  "cardWidths wide_dom = 300 # [300, 300, 300, 300] \<and> \<not> isMobile rooms_wide \<and>
   (0::int) \<le> 1 \<and> 1 \<le> RoomsCarousel_maxIndex rooms_wide \<and>
   new_calls (calls rooms_wide) (calls (state_of (RoomsCarousel_goToSlide 1 wide_dom rooms_wide))) =
     [ScrollTo 330, UpdateUI, SetTimeout 500] \<and>
   currentIndex (state_of (RoomsCarousel_syncWithScroll (wide_dom\<lparr>scrollLeft := 330\<rparr>)
      (RoomsCarousel_timeout (state_of (RoomsCarousel_goToSlide 1 wide_dom rooms_wide))))) = 2 \<and>
   currentIndex (state_of (RoomsCarousel_syncWithScroll_binary64 (wide_dom\<lparr>scrollLeft := 330\<rparr>)
      (RoomsCarousel_timeout (state_of (RoomsCarousel_goToSlide 1 wide_dom rooms_wide))))) = 2"
  by code_simp

subsection \<open>The render step\<close>


lemma RoomsCarousel_updateUI_dots:
  "dotsContainer (RoomsCarousel_updateUI s) =
     map_option (\<lambda>dots. map (\<lambda>(index, d). d\<lparr>active := (int index = currentIndex s)\<rparr>)
                             (enumerate 0 dots))
                (dotsContainer s)"
  by (auto simp add: RoomsCarousel_updateUI_def Let_def split: option.splits)







subsection \<open>The order of the scroll command and the render step\<close>

lemma RoomsCarousel_goToNext_calls:
  "cardWidths env = w # ws \<Longrightarrow>
   new_calls (calls s) (calls (state_of (RoomsCarousel_goToNext env s))) =
     (if currentIndex s < RoomsCarousel_maxIndex s
      then [ScrollTo ((int w + 30) * (currentIndex s + 1)), UpdateUI, SetTimeout 500]
      else [])"
  by (simp add: RoomsCarousel_goToNext_def RoomsCarousel_maxIndex_def Let_def
                RoomsCarousel_updateCarousel_Normal new_calls_def)

lemma RoomsCarousel_goToPrevious_calls:
  "cardWidths env = w # ws \<Longrightarrow>
   new_calls (calls s) (calls (state_of (RoomsCarousel_goToPrevious env s))) =
     (if currentIndex s > 0
      then [ScrollTo ((int w + 30) * (currentIndex s - 1)), UpdateUI, SetTimeout 500]
      else [])"
  by (simp add: RoomsCarousel_goToPrevious_def RoomsCarousel_updateCarousel_Normal new_calls_def)

lemma AmenitiesCarousel_goToNext_calls:
  "cardWidths env = w # ws \<Longrightarrow>
   new_calls (calls s) (calls (state_of (AmenitiesCarousel_goToNext env s))) =
     (if currentIndex s < AmenitiesCarousel_maxIndex s
      then [ScrollTo ((int w + 20) * (currentIndex s + 1)), UpdateUI, SetTimeout 500]
      else [])"
  by (simp add: AmenitiesCarousel_goToNext_def AmenitiesCarousel_maxIndex_def Let_def
                AmenitiesCarousel_updateCarousel_Normal new_calls_def)

lemma AmenitiesCarousel_goToPrevious_calls:
  "cardWidths env = w # ws \<Longrightarrow>
   new_calls (calls s) (calls (state_of (AmenitiesCarousel_goToPrevious env s))) =
     (if currentIndex s > 0
      then [ScrollTo ((int w + 20) * (currentIndex s - 1)), UpdateUI, SetTimeout 500]
      else [])"
  by (simp add: AmenitiesCarousel_goToPrevious_def AmenitiesCarousel_updateCarousel_Normal
                new_calls_def)

lemma RoomsCarousel_rendered_updateCarousel:
  "cardWidths env = w # ws \<Longrightarrow>
   RoomsCarousel_rendered (state_of (RoomsCarousel_updateCarousel env s)) =
   RoomsCarousel_rendered (RoomsCarousel_updateUI s)"
  by (simp add: RoomsCarousel_updateCarousel_Normal RoomsCarousel_rendered_def
                RoomsCarousel_updateUI_dots RoomsCarousel_updateUI_arrows
                RoomsCarousel_maxIndex_def)

lemma AmenitiesCarousel_rendered_updateCarousel:
  "cardWidths env = w # ws \<Longrightarrow>
   AmenitiesCarousel_rendered (state_of (AmenitiesCarousel_updateCarousel env s)) =
   AmenitiesCarousel_rendered (AmenitiesCarousel_updateUI s)"
  by (simp add: AmenitiesCarousel_updateCarousel_Normal AmenitiesCarousel_rendered_def
                AmenitiesCarousel_updateUI_arrows AmenitiesCarousel_maxIndex_def)

lemma RoomsCarousel_rendered_moves:
  assumes "cardWidths env = w # ws"
  shows "RoomsCarousel_rendered (state_of (RoomsCarousel_goToSlide i env s)) =
           RoomsCarousel_rendered (RoomsCarousel_updateUI (s\<lparr>currentIndex := i\<rparr>))"
    and "RoomsCarousel_rendered (state_of (RoomsCarousel_goToNext env s)) =
           (if currentIndex s < RoomsCarousel_maxIndex s
            then RoomsCarousel_rendered
                   (RoomsCarousel_updateUI (s\<lparr>currentIndex := currentIndex s + 1\<rparr>))
            else RoomsCarousel_rendered s)"
    and "RoomsCarousel_rendered (state_of (RoomsCarousel_goToPrevious env s)) =
           (if currentIndex s > 0
            then RoomsCarousel_rendered
                   (RoomsCarousel_updateUI (s\<lparr>currentIndex := currentIndex s - 1\<rparr>))
            else RoomsCarousel_rendered s)"
  by (simp_all add: RoomsCarousel_goToSlide_def RoomsCarousel_goToNext_def
                    RoomsCarousel_goToPrevious_def RoomsCarousel_maxIndex_def Let_def
                    RoomsCarousel_rendered_updateCarousel [OF assms])

lemma AmenitiesCarousel_rendered_moves:
  assumes "cardWidths env = w # ws"
  shows "AmenitiesCarousel_rendered (state_of (AmenitiesCarousel_goToNext env s)) =
           (if currentIndex s < AmenitiesCarousel_maxIndex s
            then AmenitiesCarousel_rendered
                   (AmenitiesCarousel_updateUI (s\<lparr>currentIndex := currentIndex s + 1\<rparr>))
            else AmenitiesCarousel_rendered s)"
    and "AmenitiesCarousel_rendered (state_of (AmenitiesCarousel_goToPrevious env s)) =
           (if currentIndex s > 0
            then AmenitiesCarousel_rendered
                   (AmenitiesCarousel_updateUI (s\<lparr>currentIndex := currentIndex s - 1\<rparr>))
            else AmenitiesCarousel_rendered s)"
  by (simp_all add: AmenitiesCarousel_goToNext_def AmenitiesCarousel_goToPrevious_def
                    AmenitiesCarousel_maxIndex_def Let_def
                    AmenitiesCarousel_rendered_updateCarousel [OF assms])

text \<open>
  Claim C8, as amended. On a container that holds a card, every programmatic index
  change that moves the index (\<open>goToSlide\<close>, \<open>goToNext\<close> below the bound,
  \<open>goToPrevious\<close> above 0) makes three calls in this order within the one handler:
  the scroll command to \<open>(cardWidth + gap) * currentIndex\<close>, then the render step, then
  \<open>setTimeout\<close> with 500. At the boundary \<open>goToNext\<close> and \<open>goToPrevious\<close> make no
  call and leave what is shown. When the handler returns, the indicators and the arrows
  show what the render step shows for the new index.
\<close>

theorem C8_scroll_then_render:
  assumes "cardWidths envR = w # ws" and "cardWidths envA = v # vs"
  shows
   "new_calls (calls r) (calls (state_of (RoomsCarousel_goToSlide i envR r))) =
      [ScrollTo ((int w + 30) * i), UpdateUI, SetTimeout 500] \<and>
    new_calls (calls r) (calls (state_of (RoomsCarousel_goToNext envR r))) =
      (if currentIndex r < RoomsCarousel_maxIndex r
       then [ScrollTo ((int w + 30) * (currentIndex r + 1)), UpdateUI, SetTimeout 500]
       else []) \<and>
    new_calls (calls r) (calls (state_of (RoomsCarousel_goToPrevious envR r))) =
      (if currentIndex r > 0
       then [ScrollTo ((int w + 30) * (currentIndex r - 1)), UpdateUI, SetTimeout 500]
       else []) \<and>
    new_calls (calls a) (calls (state_of (AmenitiesCarousel_goToNext envA a))) =
      (if currentIndex a < AmenitiesCarousel_maxIndex a
       then [ScrollTo ((int v + 20) * (currentIndex a + 1)), UpdateUI, SetTimeout 500]
       else []) \<and>
    new_calls (calls a) (calls (state_of (AmenitiesCarousel_goToPrevious envA a))) =
      (if currentIndex a > 0
       then [ScrollTo ((int v + 20) * (currentIndex a - 1)), UpdateUI, SetTimeout 500]
       else []) \<and>
    RoomsCarousel_rendered (state_of (RoomsCarousel_goToSlide i envR r)) =
      RoomsCarousel_rendered (RoomsCarousel_updateUI (r\<lparr>currentIndex := i\<rparr>)) \<and>
    RoomsCarousel_rendered (state_of (RoomsCarousel_goToNext envR r)) =
      (if currentIndex r < RoomsCarousel_maxIndex r
       then RoomsCarousel_rendered
              (RoomsCarousel_updateUI (r\<lparr>currentIndex := currentIndex r + 1\<rparr>))
       else RoomsCarousel_rendered r) \<and>
    RoomsCarousel_rendered (state_of (RoomsCarousel_goToPrevious envR r)) =
      (if currentIndex r > 0
       then RoomsCarousel_rendered
              (RoomsCarousel_updateUI (r\<lparr>currentIndex := currentIndex r - 1\<rparr>))
       else RoomsCarousel_rendered r) \<and>
    AmenitiesCarousel_rendered (state_of (AmenitiesCarousel_goToNext envA a)) =
      (if currentIndex a < AmenitiesCarousel_maxIndex a
       then AmenitiesCarousel_rendered
              (AmenitiesCarousel_updateUI (a\<lparr>currentIndex := currentIndex a + 1\<rparr>))
       else AmenitiesCarousel_rendered a) \<and>
    AmenitiesCarousel_rendered (state_of (AmenitiesCarousel_goToPrevious envA a)) =
      (if currentIndex a > 0
       then AmenitiesCarousel_rendered
              (AmenitiesCarousel_updateUI (a\<lparr>currentIndex := currentIndex a - 1\<rparr>))
       else AmenitiesCarousel_rendered a)"
  using RoomsCarousel_goToSlide_calls [OF assms(1), of r i]
        RoomsCarousel_goToNext_calls [OF assms(1), of r]
        RoomsCarousel_goToPrevious_calls [OF assms(1), of r]
        AmenitiesCarousel_goToNext_calls [OF assms(2), of a]
        AmenitiesCarousel_goToPrevious_calls [OF assms(2), of a]
        RoomsCarousel_rendered_moves [OF assms(1)]
        AmenitiesCarousel_rendered_moves [OF assms(2)]
  by blast

text \<open>
  The theorem for \<open>goToSlide(2)\<close> on the wide sample: the scroll command to 660 comes
  first, and on return the third of the four indicators is active and no arrow is
  disabled.
\<close>

theorem C8_scroll_then_render_witness:
  "cardWidths wide_dom = 300 # [300, 300, 300, 300] \<and>
   new_calls (calls rooms_wide) (calls (state_of (RoomsCarousel_goToSlide 2 wide_dom rooms_wide))) =
     [ScrollTo ((int 300 + 30) * 2), UpdateUI, SetTimeout 500] \<and>
   RoomsCarousel_rendered (state_of (RoomsCarousel_goToSlide 2 wide_dom rooms_wide)) =
     (Some [False, False, True, False], Some False, Some False)"
proof -
  have cards: "cardWidths wide_dom = 300 # [300, 300, 300, 300]"
    by (simp add: wide_dom_def)
  have shown: "RoomsCarousel_rendered (RoomsCarousel_updateUI (rooms_wide\<lparr>currentIndex := 2\<rparr>)) =
     (Some [False, False, True, False], Some False, Some False)"
    by code_simp
  from C8_scroll_then_render [OF cards cards, of rooms_wide 2 amenities_wide] cards
  show ?thesis unfolding shown by blast
qed

text \<open>
  Claim C8 as stated fails: in each programmatic change of the samples the scroll command
  comes first in the trace and the render step second.
\<close>

theorem C8_render_follows_scroll:
  "new_calls (calls rooms_wide) (calls (state_of (RoomsCarousel_goToNext wide_dom rooms_wide))) =
     [ScrollTo 330, UpdateUI, SetTimeout 500] \<and>
   new_calls (calls rooms_wide)
     (calls (state_of (RoomsCarousel_goToPrevious wide_dom
        (state_of (RoomsCarousel_goToNext wide_dom rooms_wide))))) =
     [ScrollTo 330, UpdateUI, SetTimeout 500, ScrollTo 0, UpdateUI, SetTimeout 500] \<and>
   new_calls (calls rooms_wide) (calls (state_of (RoomsCarousel_goToSlide 2 wide_dom rooms_wide))) =
     [ScrollTo 660, UpdateUI, SetTimeout 500] \<and>
   new_calls (calls amenities_wide)
     (calls (state_of (AmenitiesCarousel_goToNext wide_dom amenities_wide))) =
     [ScrollTo 320, UpdateUI, SetTimeout 500]"
  by code_simp

subsection \<open>The settle timers\<close>

lemma RoomsCarousel_callbacks:
  "foldl (\<lambda>u d. RoomsCarousel_timeout u) s ds =
     (if ds = [] then s else RoomsCarousel_timeout s)"
  by (induction ds arbitrary: s) (simp_all add: RoomsCarousel_timeout_def)

lemma AmenitiesCarousel_callbacks:
  "foldl (\<lambda>u d. AmenitiesCarousel_timeout u) s ds =
     (if ds = [] then s else AmenitiesCarousel_timeout s)"
  by (induction ds arbitrary: s) (simp_all add: AmenitiesCarousel_timeout_def)

lemma RoomsCarousel_fireTimers_eq:
  "RoomsCarousel_fireTimers t s =
     (if \<forall>d \<in> set (timers s). t < d then s else RoomsCarousel_timeout s)
       \<lparr>timers := filter (\<lambda>d. t < d) (timers s)\<rparr>"
  by (auto simp add: RoomsCarousel_fireTimers_def RoomsCarousel_callbacks
                     filter_empty_conv not_le)

lemma RoomsCarousel_fireTimers_fields:
  "isScrolling (RoomsCarousel_fireTimers t s) = (isScrolling s \<and> (\<forall>d \<in> set (timers s). t < d))"
  "timers (RoomsCarousel_fireTimers t s) = filter (\<lambda>d. t < d) (timers s)"
  "currentIndex (RoomsCarousel_fireTimers t s) = currentIndex s"
  "isMobile (RoomsCarousel_fireTimers t s) = isMobile s"
  "totalRooms (RoomsCarousel_fireTimers t s) = totalRooms s"
  "dotsContainer (RoomsCarousel_fireTimers t s) = dotsContainer s"
  "carousel (RoomsCarousel_fireTimers t s) = carousel s"
  by (simp_all add: RoomsCarousel_fireTimers_eq RoomsCarousel_timeout_def)

lemma AmenitiesCarousel_fireTimers_eq:
  "AmenitiesCarousel_fireTimers t s =
     (if \<forall>d \<in> set (timers s). t < d then s else AmenitiesCarousel_timeout s)
       \<lparr>timers := filter (\<lambda>d. t < d) (timers s)\<rparr>"
  by (auto simp add: AmenitiesCarousel_fireTimers_def AmenitiesCarousel_callbacks
                     filter_empty_conv not_le)

lemma AmenitiesCarousel_fireTimers_fields:
  "isScrolling (AmenitiesCarousel_fireTimers t s) =
     (isScrolling s \<and> (\<forall>d \<in> set (timers s). t < d))"
  "timers (AmenitiesCarousel_fireTimers t s) = filter (\<lambda>d. t < d) (timers s)"
  "currentIndex (AmenitiesCarousel_fireTimers t s) = currentIndex s"
  "isMobile (AmenitiesCarousel_fireTimers t s) = isMobile s"
  "totalCards (AmenitiesCarousel_fireTimers t s) = totalCards s"
  "carousel (AmenitiesCarousel_fireTimers t s) = carousel s"
  by (simp_all add: AmenitiesCarousel_fireTimers_eq AmenitiesCarousel_timeout_def)

lemma RoomsCarousel_updateCarousel_timers:
  "cardWidths env = w # ws \<Longrightarrow>
   timers (state_of (RoomsCarousel_updateCarousel env s)) = timers s @ [now env + 500]"
  by (simp add: RoomsCarousel_updateCarousel_Normal)

lemma AmenitiesCarousel_updateCarousel_timers:
  "cardWidths env = w # ws \<Longrightarrow>
   timers (state_of (AmenitiesCarousel_updateCarousel env s)) = timers s @ [now env + 500]"
  by (simp add: AmenitiesCarousel_updateCarousel_Normal)

lemma RoomsCarousel_two_commands:
  assumes "cardWidths env1 = w # ws" and "cardWidths env2 = v # vs"
      and "timers r = []"
      and "now env1 \<le> now env2" and "now env2 < now env1 + 500" and "now env2 \<le> t"
  shows "isScrolling (RoomsCarousel_fireTimers (now env2)
            (state_of (RoomsCarousel_goToSlide i env1 r)))"
    and "currentIndex (state_of (RoomsCarousel_goToSlide j env2
            (RoomsCarousel_fireTimers (now env2)
               (state_of (RoomsCarousel_goToSlide i env1 r))))) = j"
    and "timers (state_of (RoomsCarousel_goToSlide j env2
            (RoomsCarousel_fireTimers (now env2)
               (state_of (RoomsCarousel_goToSlide i env1 r))))) =
           [now env1 + 500, now env2 + 500]"
    and "isScrolling (RoomsCarousel_fireTimers t
           (state_of (RoomsCarousel_goToSlide j env2
              (RoomsCarousel_fireTimers (now env2)
                 (state_of (RoomsCarousel_goToSlide i env1 r)))))) = (t < now env1 + 500)"
proof -
  let ?s1 = "state_of (RoomsCarousel_goToSlide i env1 r)"
  let ?s1' = "RoomsCarousel_fireTimers (now env2) ?s1"
  let ?s2 = "state_of (RoomsCarousel_goToSlide j env2 ?s1')"
  have t1: "timers ?s1 = [now env1 + 500]"
    using assms(1,3) by (simp add: RoomsCarousel_goToSlide_def RoomsCarousel_updateCarousel_timers)
  have b1: "isScrolling ?s1"
    by (simp add: RoomsCarousel_goToSlide_def RoomsCarousel_updateCarousel_fields)
  show "isScrolling ?s1'"
    using t1 b1 assms(5) by (simp add: RoomsCarousel_fireTimers_fields)
  have t1': "timers ?s1' = [now env1 + 500]"
    using t1 assms(5) by (simp add: RoomsCarousel_fireTimers_fields)
  show "currentIndex ?s2 = j"
    by (simp add: RoomsCarousel_goToSlide_def RoomsCarousel_updateCarousel_fields)
  show t2: "timers ?s2 = [now env1 + 500, now env2 + 500]"
    using t1' assms(2)
    by (simp add: RoomsCarousel_goToSlide_def RoomsCarousel_updateCarousel_timers)
  have b2: "isScrolling ?s2"
    by (simp add: RoomsCarousel_goToSlide_def RoomsCarousel_updateCarousel_fields)
  show "isScrolling (RoomsCarousel_fireTimers t ?s2) = (t < now env1 + 500)"
    using t2 b2 assms(4,6) by (auto simp add: RoomsCarousel_fireTimers_fields)
qed

lemma AmenitiesCarousel_goToNext_moves:
  "currentIndex s < AmenitiesCarousel_maxIndex s \<Longrightarrow>
   AmenitiesCarousel_goToNext env s =
     AmenitiesCarousel_updateCarousel env (s\<lparr>currentIndex := currentIndex s + 1\<rparr>)"
  by (simp add: AmenitiesCarousel_goToNext_def AmenitiesCarousel_maxIndex_def Let_def)

lemma AmenitiesCarousel_maxIndex_cong:
  "isMobile s' = isMobile s \<Longrightarrow> totalCards s' = totalCards s \<Longrightarrow>
   AmenitiesCarousel_maxIndex s' = AmenitiesCarousel_maxIndex s"
  by (simp add: AmenitiesCarousel_maxIndex_def)

lemma AmenitiesCarousel_two_commands:
  assumes "cardWidths env1 = w # ws" and "cardWidths env2 = v # vs"
      and "timers a = []" and "currentIndex a + 1 < AmenitiesCarousel_maxIndex a"
      and "now env1 \<le> now env2" and "now env2 < now env1 + 500" and "now env2 \<le> t"
  shows "isScrolling (AmenitiesCarousel_fireTimers (now env2)
            (state_of (AmenitiesCarousel_goToNext env1 a)))"
    and "currentIndex (state_of (AmenitiesCarousel_goToNext env2
            (AmenitiesCarousel_fireTimers (now env2)
               (state_of (AmenitiesCarousel_goToNext env1 a))))) = currentIndex a + 2"
    and "timers (state_of (AmenitiesCarousel_goToNext env2
            (AmenitiesCarousel_fireTimers (now env2)
               (state_of (AmenitiesCarousel_goToNext env1 a))))) =
           [now env1 + 500, now env2 + 500]"
    and "isScrolling (AmenitiesCarousel_fireTimers t
           (state_of (AmenitiesCarousel_goToNext env2
              (AmenitiesCarousel_fireTimers (now env2)
                 (state_of (AmenitiesCarousel_goToNext env1 a)))))) = (t < now env1 + 500)"
proof -
  let ?s1 = "state_of (AmenitiesCarousel_goToNext env1 a)"
  let ?s1' = "AmenitiesCarousel_fireTimers (now env2) ?s1"
  let ?s2 = "state_of (AmenitiesCarousel_goToNext env2 ?s1')"
  have m1: "AmenitiesCarousel_goToNext env1 a =
     AmenitiesCarousel_updateCarousel env1 (a\<lparr>currentIndex := currentIndex a + 1\<rparr>)"
    using assms(4) by (simp add: AmenitiesCarousel_goToNext_moves)
  have t1: "timers ?s1 = [now env1 + 500]"
    using assms(1,3) by (simp add: m1 AmenitiesCarousel_updateCarousel_timers)
  have b1: "isScrolling ?s1"
    by (simp add: m1 AmenitiesCarousel_updateCarousel_fields)
  have c1: "currentIndex ?s1' = currentIndex a + 1"
    by (simp add: m1 AmenitiesCarousel_fireTimers_fields AmenitiesCarousel_updateCarousel_fields)
  have "AmenitiesCarousel_maxIndex ?s1' = AmenitiesCarousel_maxIndex a"
    by (rule AmenitiesCarousel_maxIndex_cong)
       (simp_all add: m1 AmenitiesCarousel_fireTimers_fields
                      AmenitiesCarousel_updateCarousel_fields)
  with c1 assms(4) have "currentIndex ?s1' < AmenitiesCarousel_maxIndex ?s1'"
    by simp
  then have m2: "AmenitiesCarousel_goToNext env2 ?s1' =
     AmenitiesCarousel_updateCarousel env2 (?s1'\<lparr>currentIndex := currentIndex ?s1' + 1\<rparr>)"
    by (rule AmenitiesCarousel_goToNext_moves)
  show "isScrolling ?s1'"
    using t1 b1 assms(6) by (simp add: AmenitiesCarousel_fireTimers_fields)
  have t1': "timers ?s1' = [now env1 + 500]"
    using t1 assms(6) by (simp add: AmenitiesCarousel_fireTimers_fields)
  show "currentIndex ?s2 = currentIndex a + 2"
    using c1 by (simp add: m2 AmenitiesCarousel_updateCarousel_fields)
  show t2: "timers ?s2 = [now env1 + 500, now env2 + 500]"
    using t1' assms(2) by (simp add: m2 AmenitiesCarousel_updateCarousel_timers)
  have b2: "isScrolling ?s2"
    by (simp add: m2 AmenitiesCarousel_updateCarousel_fields)
  show "isScrolling (AmenitiesCarousel_fireTimers t ?s2) = (t < now env1 + 500)"
    using t2 b2 assms(5,7) by (auto simp add: AmenitiesCarousel_fireTimers_fields)
qed

text \<open>
  Two commands less than 500ms apart. Let no timer be pending, a first command be issued
  at time \<open>t1\<close> and a second at \<open>t2\<close> with \<open>t1 \<le> t2 < t1 + 500\<close>, on a container
  that holds a card (for the rooms \<open>goToSlide\<close>, for the amenities \<open>goToNext\<close> below
  the bound). The flag \<open>isScrolling\<close> is still set when the second command arrives; the
  second command overwrites \<open>currentIndex\<close> and arms a second timer, and the first
  timer stays armed. At every later time \<open>t\<close> the flag is set exactly when
  \<open>t < t1 + 500\<close>: the first timer clears it, 500ms after the first command.
\<close>

theorem earlier_timer_clears_flag:
  assumes "cardWidths env1 = w # ws" and "cardWidths env2 = v # vs"
      and "timers r = []"
      and "timers a = []" and "currentIndex a + 1 < AmenitiesCarousel_maxIndex a"
      and "now env1 \<le> now env2" and "now env2 < now env1 + 500" and "now env2 \<le> t"
  shows
    "isScrolling (RoomsCarousel_fireTimers (now env2)
            (state_of (RoomsCarousel_goToSlide i env1 r))) \<and>
     currentIndex (state_of (RoomsCarousel_goToSlide j env2
            (RoomsCarousel_fireTimers (now env2)
               (state_of (RoomsCarousel_goToSlide i env1 r))))) = j \<and>
     timers (state_of (RoomsCarousel_goToSlide j env2
            (RoomsCarousel_fireTimers (now env2)
               (state_of (RoomsCarousel_goToSlide i env1 r))))) =
           [now env1 + 500, now env2 + 500] \<and>
     isScrolling (RoomsCarousel_fireTimers t
           (state_of (RoomsCarousel_goToSlide j env2
              (RoomsCarousel_fireTimers (now env2)
                 (state_of (RoomsCarousel_goToSlide i env1 r)))))) = (t < now env1 + 500) \<and>
     isScrolling (AmenitiesCarousel_fireTimers (now env2)
            (state_of (AmenitiesCarousel_goToNext env1 a))) \<and>
     currentIndex (state_of (AmenitiesCarousel_goToNext env2
            (AmenitiesCarousel_fireTimers (now env2)
               (state_of (AmenitiesCarousel_goToNext env1 a))))) = currentIndex a + 2 \<and>
     timers (state_of (AmenitiesCarousel_goToNext env2
            (AmenitiesCarousel_fireTimers (now env2)
               (state_of (AmenitiesCarousel_goToNext env1 a))))) =
           [now env1 + 500, now env2 + 500] \<and>
     isScrolling (AmenitiesCarousel_fireTimers t
           (state_of (AmenitiesCarousel_goToNext env2
              (AmenitiesCarousel_fireTimers (now env2)
                 (state_of (AmenitiesCarousel_goToNext env1 a)))))) = (t < now env1 + 500)"
  using RoomsCarousel_two_commands [OF assms(1,2,3,6,7,8)]
        AmenitiesCarousel_two_commands [OF assms(1,2,4,5,6,7,8)]
  by blast

text \<open>The same for commands at times 1000 and 1300 on the narrow samples, read at 1600.\<close>

theorem earlier_timer_clears_flag_sample:
  "cardWidths (narrow_dom_at 1000) = 300 # [300, 300] \<and>
   cardWidths (narrow_dom_at 1300) = 300 # [300, 300] \<and>
   timers rooms_narrow_idle = [] \<and> timers amenities_narrow_idle = [] \<and>
   currentIndex amenities_narrow_idle + 1 < AmenitiesCarousel_maxIndex amenities_narrow_idle \<and>
   now (narrow_dom_at 1000) \<le> now (narrow_dom_at 1300) \<and>
   now (narrow_dom_at 1300) < now (narrow_dom_at 1000) + 500 \<and>
   now (narrow_dom_at 1300) \<le> 1600 \<and>
   isScrolling (RoomsCarousel_fireTimers 1600
      (state_of (RoomsCarousel_goToSlide 2 (narrow_dom_at 1300)
         (RoomsCarousel_fireTimers (now (narrow_dom_at 1300))
            (state_of (RoomsCarousel_goToSlide 1 (narrow_dom_at 1000) rooms_narrow_idle))))))
     = (1600 < now (narrow_dom_at 1000) + 500)"
proof -
  have c1: "cardWidths (narrow_dom_at 1000) = 300 # [300, 300]"
    by (simp add: narrow_dom_at_def narrow_dom_def)
  have c2: "cardWidths (narrow_dom_at 1300) = 300 # [300, 300]"
    by (simp add: narrow_dom_at_def narrow_dom_def)
  have tr: "timers rooms_narrow_idle = []" by code_simp
  have ta: "timers amenities_narrow_idle = []" by code_simp
  have room: "currentIndex amenities_narrow_idle + 1
                < AmenitiesCarousel_maxIndex amenities_narrow_idle"
    by code_simp
  have o1: "now (narrow_dom_at 1000) \<le> now (narrow_dom_at 1300)"
    by (simp add: narrow_dom_at_def)
  have o2: "now (narrow_dom_at 1300) < now (narrow_dom_at 1000) + 500"
    by (simp add: narrow_dom_at_def)
  have o3: "now (narrow_dom_at 1300) \<le> 1600"
    by (simp add: narrow_dom_at_def)
  from earlier_timer_clears_flag [OF c1 c2 tr ta room o1 o2 o3, where i = 1 and j = 2]
       c1 c2 tr ta room o1 o2 o3
  show ?thesis by blast
qed

text \<open>
  Claim C9 says that when a command is issued before the previous command's 500ms timer
  fires, \<open>isScrolling\<close> stays set from the first command until 500ms after the latest
  one, the earlier timer not clearing it in between. The code does otherwise. After
  \<open>goToSlide(1)\<close> at time 1000 and \<open>goToSlide(2)\<close> at time 1300 on the wide sample,
  the index is 2 and two timers are pending, for 1500 and 1800. The flag is set at 1499
  and cleared at 1500, 300ms before the second timer, which stays pending; a scroll event
  at offset 0 then passes the guard and moves the index from the commanded 2 to 0.
  \<open>updateCarousel\<close> arms its timer under the comment ``Reset scrolling flag after
  animation'' and never cancels the one before; \<open>debounce\<close> in the same file clears
  its timer before it arms the next.
\<close>

theorem C9_flag_cleared_early:
  "timers rooms_wide_idle = [] \<and>
   currentIndex rooms_two_commands = 2 \<and>
   timers rooms_two_commands = [1500, 1800] \<and>
   isScrolling (RoomsCarousel_fireTimers 1499 rooms_two_commands) \<and>
   \<not> isScrolling (RoomsCarousel_fireTimers 1500 rooms_two_commands) \<and>
   timers (RoomsCarousel_fireTimers 1500 rooms_two_commands) = [1800] \<and>
   currentIndex (RoomsCarousel_step
      (Scroll RoomsCarouselEl, (wide_dom_at 1500)\<lparr>scrollLeft := 0\<rparr>) rooms_two_commands) = 0"
  by code_simp

subsection \<open>Key events\<close>

text \<open>
  Claim C10. The amenities carousel registers no \<open>keydown\<close> listener: for every key
  and every document, in view or not, a \<open>keydown\<close> event leaves the whole state of the
  amenities instance as it is, \<open>currentIndex\<close> and \<open>isScrolling\<close> included, whatever
  it does to the rooms instance of the same page.
\<close>

theorem C10_keydown_leaves_amenities:
  "AmenitiesCarousel_dispatch (KeyDown key) env a = Normal a \<and>
   amenities (page_dispatch (KeyDown key) envR envA pg) = amenities pg"
proof -
  have own: "AmenitiesCarousel_dispatch (KeyDown key) env' a' = Normal a'" for env' a'
    by (simp add: AmenitiesCarousel_dispatch_def)
  have "map_option (\<lambda>a. state_of (AmenitiesCarousel_dispatch (KeyDown key) envA a))
          (amenities pg) = amenities pg"
    by (cases "amenities pg") (simp_all add: own)
  then show ?thesis
    by (simp add: own page_dispatch_def)
qed

text \<open>The same event does move the rooms carousel of the page.\<close>

lemma keydown_moves_rooms:
  "currentIndex (rooms (page_dispatch (KeyDown ''ArrowRight'') wide_dom wide_dom
      \<lparr>rooms = rooms_wide, amenities = Some amenities_wide\<rparr>)) = 1 \<and>
   amenities (page_dispatch (KeyDown ''ArrowRight'') wide_dom wide_dom
      \<lparr>rooms = rooms_wide, amenities = Some amenities_wide\<rparr>) = Some amenities_wide"
  by code_simp

subsection \<open>A container without cards\<close>

text \<open>
  Over a container without cards the constructor of either class throws: \<open>init\<close> ends
  with \<open>updateCarousel\<close>, which reads \<open>cards[0].offsetWidth\<close>.
\<close>

lemma RoomsCarousel_constructor_no_card:
  "cardWidths env = [] \<Longrightarrow>
   threw (RoomsCarousel_constructor True leftEl rightEl dotsEl env)"
  by (simp add: RoomsCarousel_constructor_def RoomsCarousel_init_def Let_def
                RoomsCarousel_updateCarousel_threw)

lemma AmenitiesCarousel_constructor_no_card:
  "cardWidths env = [] \<Longrightarrow>
   threw (AmenitiesCarousel_constructor True leftEl rightEl env)"
  by (simp add: AmenitiesCarousel_constructor_def AmenitiesCarousel_init_def
                AmenitiesCarousel_updateCarousel_threw)

text \<open>
  Claim C4 says that over a container that is present and holds no item every operation
  is a no-op, and that no operation ever throws. The code does otherwise. With
  \<open>#roomsCarousel\<close> present and empty, the
  constructor throws a \<open>TypeError\<close> from \<open>updateCarousel\<close>, after it has set
  \<open>isScrolling\<close> and created one indicator, and before any timer is armed. A click on
  that indicator throws again, and so does a resize across the breakpoint. The amenities
  constructor throws in the same way, and in \<open>App.initializeModules\<close> the exception of
  the rooms keeps the amenities carousel from being constructed at all. With cards present
  and \<open>#carouselDots\<close> missing, the resize listener throws on a change of mode.
\<close>

theorem C4_empty_carousel_throws:
  "cardWidths empty_dom = [] \<and>
   rooms_empty =
     Thrown TypeError
       \<lparr>carousel = True, leftArrow = Some False, rightArrow = Some False,
        currentIndex = 0, isScrolling = True, isMobile = False,
        swipe = \<lparr>startX = 0, startY = 0, currentX = 0, currentY = 0,
                 isDragging = False, isHorizontalSwipe = False\<rparr>,
        timers = [], calls = [],
        dotsContainer = Some [\<lparr>active = True, onclick = Some 0\<rparr>],
        totalRooms = 0\<rparr> \<and>
   threw (RoomsCarousel_dispatch (Click (RoomsDot 0)) empty_dom (state_of rooms_empty)) \<and>
   threw (RoomsCarousel_dispatch Resize (empty_dom\<lparr>innerWidth := 375\<rparr>) (state_of rooms_empty)) \<and>
   threw (AmenitiesCarousel_constructor True (Some False) (Some False) empty_dom) \<and>
   amenities (App_initializeModules empty_markup empty_dom wide_dom) = None \<and>
   threw (RoomsCarousel_dispatch Resize (wide_dom\<lparr>innerWidth := 375\<rparr>) rooms_wide_nodots)"
  by code_simp

subsection \<open>The index stays within its bounds\<close>

text \<open>
  The invariant of the rooms carousel reads the card count, the mode, the index and the
  listeners of the indicators only, and every listener preserves it, whether it returns
  or throws.
\<close>

lemma RoomsCarousel_inv_cong:
  assumes "totalRooms s' = totalRooms s" and "isMobile s' = isMobile s"
      and "currentIndex s' = currentIndex s"
      and "map_option (map onclick) (dotsContainer s') = map_option (map onclick) (dotsContainer s)"
  shows "RoomsCarousel_inv s' = RoomsCarousel_inv s"
proof -
  have m: "RoomsCarousel_maxIndex s' = RoomsCarousel_maxIndex s"
    using assms(1,2) by (simp add: RoomsCarousel_maxIndex_def)
  show ?thesis
  proof (cases "dotsContainer s")
    case None
    with assms(4) have "dotsContainer s' = None" by simp
    with None show ?thesis by (simp add: RoomsCarousel_inv_def)
  next
    case (Some dots)
    with assms(4) obtain dots' where d': "dotsContainer s' = Some dots'"
      and eq: "map onclick dots' = map onclick dots"
      by (cases "dotsContainer s'") auto
    show ?thesis
      unfolding RoomsCarousel_inv_def Some d' option.case eq m assms(1,3) ..
  qed
qed

lemma onclick_marked:
  "map (onclick \<circ> (\<lambda>(index, d). d\<lparr>active := f index\<rparr>)) (enumerate n dots) = map onclick dots"
  by (induction dots arbitrary: n) simp_all

lemma RoomsCarousel_updateUI_onclick:
  "map_option (map onclick) (dotsContainer (RoomsCarousel_updateUI s)) =
   map_option (map onclick) (dotsContainer s)"
  by (cases "dotsContainer s") (simp_all add: RoomsCarousel_updateUI_dots onclick_marked)

lemma RoomsCarousel_inv_updateUI:
  "RoomsCarousel_inv (RoomsCarousel_updateUI s) = RoomsCarousel_inv s"
  by (rule RoomsCarousel_inv_cong)
     (simp_all add: RoomsCarousel_updateUI_fields RoomsCarousel_updateUI_onclick)

lemma RoomsCarousel_updateCarousel_onclick:
  "map_option (map onclick) (dotsContainer (state_of (RoomsCarousel_updateCarousel env s))) =
   map_option (map onclick) (dotsContainer s)"
  by (cases "cardWidths env")
     (simp_all add: RoomsCarousel_updateCarousel_Normal RoomsCarousel_updateCarousel_Thrown
                    RoomsCarousel_updateUI_onclick)

lemma RoomsCarousel_inv_updateCarousel:
  "RoomsCarousel_inv (state_of (RoomsCarousel_updateCarousel env s)) = RoomsCarousel_inv s"
  by (rule RoomsCarousel_inv_cong)
     (simp_all add: RoomsCarousel_updateCarousel_fields RoomsCarousel_updateCarousel_onclick)

lemma RoomsCarousel_maxIndex_index:
  "RoomsCarousel_maxIndex (s\<lparr>currentIndex := c\<rparr>) = RoomsCarousel_maxIndex s"
  by (simp add: RoomsCarousel_maxIndex_def)

lemma RoomsCarousel_inv_index:
  assumes "RoomsCarousel_inv s" and "0 \<le> c" and "c \<le> RoomsCarousel_maxIndex s"
  shows "RoomsCarousel_inv (s\<lparr>currentIndex := c\<rparr>)"
  using assms
  by (simp add: RoomsCarousel_inv_def RoomsCarousel_maxIndex_index
           cong: option.case_cong split: option.splits)

lemma RoomsCarousel_inv_goToSlide:
  assumes "RoomsCarousel_inv s" and "0 \<le> i" and "i \<le> RoomsCarousel_maxIndex s"
  shows "RoomsCarousel_inv (state_of (RoomsCarousel_goToSlide i env s))"
  using RoomsCarousel_inv_index [OF assms]
  by (simp add: RoomsCarousel_goToSlide_def RoomsCarousel_inv_updateCarousel)

lemma RoomsCarousel_inv_goToNext:
  assumes "RoomsCarousel_inv s"
  shows "RoomsCarousel_inv (state_of (RoomsCarousel_goToNext env s))"
proof (cases "currentIndex s < RoomsCarousel_maxIndex s")
  case True
  from assms have "0 \<le> currentIndex s" by (simp add: RoomsCarousel_inv_def)
  with True have "RoomsCarousel_inv (s\<lparr>currentIndex := currentIndex s + 1\<rparr>)"
    by (intro RoomsCarousel_inv_index [OF assms]) simp_all
  with True show ?thesis
    by (simp add: RoomsCarousel_goToNext_def RoomsCarousel_maxIndex_def Let_def
                  RoomsCarousel_inv_updateCarousel)
next
  case False
  with assms show ?thesis
    by (simp add: RoomsCarousel_goToNext_def RoomsCarousel_maxIndex_def Let_def)
qed

lemma RoomsCarousel_inv_goToPrevious:
  assumes "RoomsCarousel_inv s"
  shows "RoomsCarousel_inv (state_of (RoomsCarousel_goToPrevious env s))"
proof (cases "currentIndex s > 0")
  case True
  from assms have "currentIndex s \<le> RoomsCarousel_maxIndex s" by (simp add: RoomsCarousel_inv_def)
  with True have "RoomsCarousel_inv (s\<lparr>currentIndex := currentIndex s - 1\<rparr>)"
    by (intro RoomsCarousel_inv_index [OF assms]) simp_all
  with True show ?thesis
    by (simp add: RoomsCarousel_goToPrevious_def RoomsCarousel_inv_updateCarousel)
next
  case False
  with assms show ?thesis
    by (simp add: RoomsCarousel_goToPrevious_def)
qed

lemma spec_scrollIndex_range:
  assumes "0 \<le> M" and "narrow \<longrightarrow> M = int n - 1"
  shows "0 \<le> spec_scrollIndex narrow x p maxScroll M n \<and>
         spec_scrollIndex narrow x p maxScroll M n \<le> M"
  using assms by (auto simp add: spec_scrollIndex_def clamp_def)

lemma RoomsCarousel_inv_syncWithScroll:
  assumes "RoomsCarousel_inv s"
  shows "RoomsCarousel_inv (state_of (RoomsCarousel_syncWithScroll env s))"
proof (cases "isScrolling s")
  case True
  with assms show ?thesis by (simp add: RoomsCarousel_syncWithScroll_def)
next
  case idle: False
  show ?thesis
  proof (cases "cardWidths env")
    case Nil
    with idle assms show ?thesis by (simp add: RoomsCarousel_syncWithScroll_def)
  next
    case (Cons w ws)
    let ?n = "spec_scrollIndex (isMobile s) (scrollLeft env) (int w + 30)
                (scrollWidth env - clientWidth env) (RoomsCarousel_maxIndex s) (totalRooms s)"
    from assms have "0 \<le> RoomsCarousel_maxIndex s"
      by (simp add: RoomsCarousel_inv_def)
    moreover have "isMobile s \<longrightarrow> RoomsCarousel_maxIndex s = int (totalRooms s) - 1"
      by (simp add: RoomsCarousel_maxIndex_def)
    ultimately have "0 \<le> ?n \<and> ?n \<le> RoomsCarousel_maxIndex s"
      by (rule spec_scrollIndex_range)
    then have "RoomsCarousel_inv (s\<lparr>currentIndex := ?n\<rparr>)"
      using assms by (simp add: RoomsCarousel_inv_index)
    with assms show ?thesis
      by (simp add: RoomsCarousel_syncWithScroll_idle [OF idle Cons] Let_def
                    RoomsCarousel_inv_updateUI)
  qed
qed

text \<open>The version in binary64 arithmetic clamps in the same way.\<close>

lemma RoomsCarousel_inv_syncWithScroll_binary64:
  assumes "RoomsCarousel_inv s"
  shows "RoomsCarousel_inv (state_of (RoomsCarousel_syncWithScroll_binary64 env s))"
proof (cases "isScrolling s")
  case True
  with assms show ?thesis by (simp add: RoomsCarousel_syncWithScroll_binary64_def)
next
  case idle: False
  show ?thesis
  proof (cases "cardWidths env")
    case Nil
    with idle assms show ?thesis by (simp add: RoomsCarousel_syncWithScroll_binary64_def)
  next
    case (Cons w ws)
    let ?n = "spec_scrollIndex_binary64 (isMobile s) (scrollLeft env) (int w + 30)
                (scrollWidth env - clientWidth env) (RoomsCarousel_maxIndex s) (totalRooms s)"
    from assms have "0 \<le> RoomsCarousel_maxIndex s"
      by (simp add: RoomsCarousel_inv_def)
    moreover have "isMobile s \<longrightarrow> RoomsCarousel_maxIndex s = int (totalRooms s) - 1"
      by (simp add: RoomsCarousel_maxIndex_def)
    ultimately have "0 \<le> ?n \<and> ?n \<le> RoomsCarousel_maxIndex s"
      by (rule spec_scrollIndex_binary64_range)
    then have "RoomsCarousel_inv (s\<lparr>currentIndex := ?n\<rparr>)"
      using assms by (simp add: RoomsCarousel_inv_index)
    with assms show ?thesis
      by (simp add: RoomsCarousel_syncWithScroll_binary64_idle [OF idle Cons] Let_def
                    RoomsCarousel_inv_updateUI)
  qed
qed

lemma RoomsCarousel_inv_swipe:
  "RoomsCarousel_inv (s\<lparr>swipe := v\<rparr>) = RoomsCarousel_inv s"
  by (rule RoomsCarousel_inv_cong) simp_all

lemma RoomsCarousel_inv_touchstart:
  "RoomsCarousel_inv (RoomsCarousel_touchstart x y s) = RoomsCarousel_inv s"
  by (simp add: RoomsCarousel_touchstart_def RoomsCarousel_inv_swipe)

lemma RoomsCarousel_inv_touchmove:
  "RoomsCarousel_inv (RoomsCarousel_touchmove x y s) = RoomsCarousel_inv s"
  by (simp add: RoomsCarousel_touchmove_def Let_def RoomsCarousel_inv_swipe)

lemma state_of_and_then_Normal:
  "state_of (and_then c (\<lambda>t. Normal (f t))) = (if threw c then state_of c else f (state_of c))"
  by (cases c) simp_all

lemma RoomsCarousel_inv_touchend:
  assumes "RoomsCarousel_inv s"
  shows "RoomsCarousel_inv (state_of (RoomsCarousel_touchend x env s))"
  using assms RoomsCarousel_inv_goToNext [OF assms, of env]
        RoomsCarousel_inv_goToPrevious [OF assms, of env]
  by (simp add: RoomsCarousel_touchend_def Let_def state_of_and_then_Normal
                RoomsCarousel_inv_swipe)

lemma RoomsCarousel_inv_keydown:
  assumes "RoomsCarousel_inv s"
  shows "RoomsCarousel_inv (state_of (RoomsCarousel_keydown key env s))"
  using assms RoomsCarousel_inv_goToNext [OF assms, of env]
        RoomsCarousel_inv_goToPrevious [OF assms, of env]
  by (simp add: RoomsCarousel_keydown_def Let_def)

lemma RoomsCarousel_inv_rebuilt:
  assumes "2 \<le> totalRooms s"
  shows "RoomsCarousel_inv
           ((RoomsCarousel_createDots (s\<lparr>dotsContainer := Some []\<rparr>))\<lparr>currentIndex := 0\<rparr>)"
  using assms
  by (auto simp add: RoomsCarousel_inv_def RoomsCarousel_createDots_def Let_def
                     RoomsCarousel_maxIndex_def)

lemma RoomsCarousel_inv_resize:
  assumes "RoomsCarousel_inv s"
  shows "RoomsCarousel_inv (state_of (RoomsCarousel_resize env s))"
proof (cases "isMobile s = (innerWidth env \<le> 768)")
  case True
  have "RoomsCarousel_inv (s\<lparr>isMobile := (innerWidth env \<le> 768)\<rparr>) = RoomsCarousel_inv s"
    by (rule RoomsCarousel_inv_cong) (use True in simp_all)
  with True assms show ?thesis
    by (simp add: RoomsCarousel_resize_def Let_def)
next
  case False
  from assms obtain dots where dots: "dotsContainer s = Some dots" and n: "2 \<le> totalRooms s"
    by (cases "dotsContainer s") (simp_all add: RoomsCarousel_inv_def)
  let ?s = "s\<lparr>isMobile := (innerWidth env \<le> 768)\<rparr>"
  have "RoomsCarousel_inv
          ((RoomsCarousel_createDots (?s\<lparr>dotsContainer := Some []\<rparr>))\<lparr>currentIndex := 0\<rparr>)"
    by (rule RoomsCarousel_inv_rebuilt) (simp add: n)
  with False dots show ?thesis
    by (simp add: RoomsCarousel_resize_def Let_def RoomsCarousel_inv_updateCarousel)
qed

lemma RoomsCarousel_inv_fireTimers:
  "RoomsCarousel_inv (RoomsCarousel_fireTimers t s) = RoomsCarousel_inv s"
  by (rule RoomsCarousel_inv_cong) (simp_all add: RoomsCarousel_fireTimers_fields)

lemma RoomsCarousel_inv_dot:
  assumes "RoomsCarousel_inv s" and "dotsContainer s = Some dots" and "p < length dots"
      and "onclick (dots ! p) = Some i"
  shows "int i \<le> RoomsCarousel_maxIndex s"
proof -
  from assms(1,2) have "\<forall>d \<in> set dots.
      (case onclick d of None \<Rightarrow> True | Some i \<Rightarrow> int i \<le> RoomsCarousel_maxIndex s)"
    by (simp add: RoomsCarousel_inv_def)
  moreover from assms(3) have "dots ! p \<in> set dots" by simp
  ultimately have "case onclick (dots ! p) of None \<Rightarrow> True
                   | Some i \<Rightarrow> int i \<le> RoomsCarousel_maxIndex s"
    by blast
  with assms(4) show ?thesis by simp
qed

lemma RoomsCarousel_inv_listener:
  assumes "RoomsCarousel_inv s"
  shows "RoomsCarousel_inv (state_of (RoomsCarousel_listener ev env s))"
proof (cases ev)
  case (Click tg)
  show ?thesis
  proof (cases tg)
    case (RoomsDot p)
    show ?thesis
    proof (cases "dotsContainer s")
      case None
      with assms Click RoomsDot show ?thesis by simp
    next
      case (Some dots)
      show ?thesis
      proof (cases "p < length dots")
        case False
        with assms Click RoomsDot Some show ?thesis by simp
      next
        case True
        show ?thesis
        proof (cases "onclick (dots ! p)")
          case None
          with assms Click RoomsDot Some True show ?thesis by simp
        next
          case (Some i)
          from RoomsCarousel_inv_dot [OF assms \<open>dotsContainer s = Some dots\<close> True Some]
          have "RoomsCarousel_inv (state_of (RoomsCarousel_goToSlide (int i) env s))"
            by (intro RoomsCarousel_inv_goToSlide [OF assms]) simp_all
          with Click RoomsDot \<open>dotsContainer s = Some dots\<close> True Some show ?thesis by simp
        qed
      qed
    qed
  qed (use assms Click RoomsCarousel_inv_goToNext RoomsCarousel_inv_goToPrevious in simp_all)
next
  case (Scroll tg)
  with assms RoomsCarousel_inv_syncWithScroll_binary64 show ?thesis by (cases tg) simp_all
next
  case (TouchStart tg x y)
  with assms show ?thesis by (cases tg) (simp_all add: RoomsCarousel_inv_touchstart)
next
  case (TouchMove tg x y)
  with assms show ?thesis by (cases tg) (simp_all add: RoomsCarousel_inv_touchmove)
next
  case (TouchEnd tg x)
  with assms RoomsCarousel_inv_touchend show ?thesis by (cases tg) simp_all
next
  case (KeyDown key)
  with assms RoomsCarousel_inv_keydown show ?thesis by simp
next
  case Resize
  with assms RoomsCarousel_inv_resize show ?thesis by simp
qed

lemma RoomsCarousel_inv_step:
  assumes "RoomsCarousel_inv s"
  shows "RoomsCarousel_inv (RoomsCarousel_step p s)"
  using assms RoomsCarousel_inv_listener [of "RoomsCarousel_fireTimers (now (snd p)) s"]
  by (simp add: RoomsCarousel_step_def RoomsCarousel_dispatch_def RoomsCarousel_inv_fireTimers)

lemma RoomsCarousel_inv_run:
  "RoomsCarousel_inv s \<Longrightarrow> RoomsCarousel_inv (RoomsCarousel_run evs s)"
  by (induction evs arbitrary: s) (simp_all add: RoomsCarousel_inv_step)

lemma RoomsCarousel_inv_constructor:
  assumes "2 \<le> length (cardWidths env)"
  shows "RoomsCarousel_inv
           (state_of (RoomsCarousel_constructor True leftEl rightEl (Some ds) env))"
proof -
  have "RoomsCarousel_inv (RoomsCarousel_createDots
          \<lparr>carousel = True, leftArrow = leftEl, rightArrow = rightEl,
           currentIndex = 0, isScrolling = False, isMobile = (innerWidth env \<le> 768),
           swipe = \<lparr>startX = 0, startY = 0, currentX = 0, currentY = 0,
                    isDragging = False, isHorizontalSwipe = False\<rparr>,
           timers = [], calls = [],
           dotsContainer = Some (map (\<lambda>a. \<lparr>active = a, onclick = None\<rparr>) ds),
           totalRooms = length (cardWidths env)\<rparr>)"
    using assms
    by (auto simp add: RoomsCarousel_inv_def RoomsCarousel_createDots_def
                       RoomsCarousel_maxIndex_def Let_def)
  then show ?thesis
    by (simp add: RoomsCarousel_constructor_def RoomsCarousel_init_def Let_def
                  RoomsCarousel_inv_updateCarousel)
qed

text \<open>The same for the amenities carousel.\<close>

lemma AmenitiesCarousel_inv_cong:
  assumes "totalCards s' = totalCards s" and "isMobile s' = isMobile s"
      and "currentIndex s' = currentIndex s"
  shows "AmenitiesCarousel_inv s' = AmenitiesCarousel_inv s"
  using assms by (simp add: AmenitiesCarousel_inv_def AmenitiesCarousel_maxIndex_def)

lemma AmenitiesCarousel_inv_updateUI:
  "AmenitiesCarousel_inv (AmenitiesCarousel_updateUI s) = AmenitiesCarousel_inv s"
  by (rule AmenitiesCarousel_inv_cong) (simp_all add: AmenitiesCarousel_updateUI_fields)

lemma AmenitiesCarousel_inv_updateCarousel:
  "AmenitiesCarousel_inv (state_of (AmenitiesCarousel_updateCarousel env s)) =
   AmenitiesCarousel_inv s"
  by (rule AmenitiesCarousel_inv_cong) (simp_all add: AmenitiesCarousel_updateCarousel_fields)

lemma AmenitiesCarousel_inv_index:
  assumes "AmenitiesCarousel_inv s" and "0 \<le> c" and "c \<le> AmenitiesCarousel_maxIndex s"
  shows "AmenitiesCarousel_inv (s\<lparr>currentIndex := c\<rparr>)"
  using assms
  by (auto simp add: AmenitiesCarousel_inv_def AmenitiesCarousel_maxIndex_def split: if_splits)

lemma AmenitiesCarousel_inv_goToNext:
  assumes "AmenitiesCarousel_inv s"
  shows "AmenitiesCarousel_inv (state_of (AmenitiesCarousel_goToNext env s))"
proof (cases "currentIndex s < AmenitiesCarousel_maxIndex s")
  case True
  from assms have "0 \<le> currentIndex s" by (simp add: AmenitiesCarousel_inv_def)
  with True have "AmenitiesCarousel_inv (s\<lparr>currentIndex := currentIndex s + 1\<rparr>)"
    by (intro AmenitiesCarousel_inv_index [OF assms]) simp_all
  with True show ?thesis
    by (simp add: AmenitiesCarousel_goToNext_moves AmenitiesCarousel_inv_updateCarousel)
next
  case False
  with assms show ?thesis
    by (simp add: AmenitiesCarousel_goToNext_def AmenitiesCarousel_maxIndex_def Let_def)
qed

lemma AmenitiesCarousel_inv_goToPrevious:
  assumes "AmenitiesCarousel_inv s"
  shows "AmenitiesCarousel_inv (state_of (AmenitiesCarousel_goToPrevious env s))"
proof (cases "currentIndex s > 0")
  case True
  from assms have "currentIndex s \<le> AmenitiesCarousel_maxIndex s"
    by (simp add: AmenitiesCarousel_inv_def)
  with True have "AmenitiesCarousel_inv (s\<lparr>currentIndex := currentIndex s - 1\<rparr>)"
    by (intro AmenitiesCarousel_inv_index [OF assms]) simp_all
  with True show ?thesis
    by (simp add: AmenitiesCarousel_goToPrevious_def AmenitiesCarousel_inv_updateCarousel)
next
  case False
  with assms show ?thesis
    by (simp add: AmenitiesCarousel_goToPrevious_def)
qed

lemma AmenitiesCarousel_syncWithScroll_wide:
  assumes "\<not> isScrolling s" and "\<not> isMobile s"
  shows "AmenitiesCarousel_syncWithScroll env s =
     (let newIndex = spec_scrollIndex False (scrollLeft env) p
                       (scrollWidth env - clientWidth env) (AmenitiesCarousel_maxIndex s)
                       (totalCards s)
      in if newIndex \<noteq> currentIndex s
         then Normal (AmenitiesCarousel_updateUI (s\<lparr>currentIndex := newIndex\<rparr>))
         else Normal s)"
  using assms
  by (simp add: AmenitiesCarousel_syncWithScroll_def spec_scrollIndex_def clamp_def
                AmenitiesCarousel_maxIndex_def Let_def)

lemma AmenitiesCarousel_inv_syncWithScroll:
  assumes "AmenitiesCarousel_inv s"
  shows "AmenitiesCarousel_inv (state_of (AmenitiesCarousel_syncWithScroll env s))"
proof (cases "isScrolling s")
  case True
  with assms show ?thesis by (simp add: AmenitiesCarousel_syncWithScroll_def)
next
  case idle: False
  from assms have M: "0 \<le> AmenitiesCarousel_maxIndex s"
    by (simp add: AmenitiesCarousel_inv_def)
  have narrow: "isMobile s \<longrightarrow> AmenitiesCarousel_maxIndex s = int (totalCards s) - 1"
    by (simp add: AmenitiesCarousel_maxIndex_def)
  have step: "AmenitiesCarousel_inv
     (s\<lparr>currentIndex := spec_scrollIndex (isMobile s) x p ms (AmenitiesCarousel_maxIndex s)
                           (totalCards s)\<rparr>)" for x p ms
    using spec_scrollIndex_range [OF M narrow] assms
    by (simp add: AmenitiesCarousel_inv_index)
  show ?thesis
  proof (cases "isMobile s")
    case False
    with step [of "scrollLeft env" 0 "scrollWidth env - clientWidth env"] assms show ?thesis
      by (simp add: AmenitiesCarousel_syncWithScroll_wide [OF idle False, of env 0] Let_def
                    AmenitiesCarousel_inv_updateUI)
  next
    case True
    show ?thesis
    proof (cases "cardWidths env")
      case Nil
      with idle True assms show ?thesis
        by (simp add: AmenitiesCarousel_syncWithScroll_def)
    next
      case (Cons w ws)
      with step [of "scrollLeft env" "int w + 20" "scrollWidth env - clientWidth env"] assms
      show ?thesis
        by (simp add: AmenitiesCarousel_syncWithScroll_idle [OF idle Cons] Let_def
                      AmenitiesCarousel_inv_updateUI)
    qed
  qed
qed

lemma AmenitiesCarousel_syncWithScroll_binary64_wide:
  assumes "\<not> isScrolling s" and "\<not> isMobile s"
  shows "AmenitiesCarousel_syncWithScroll_binary64 env s =
     (let newIndex = spec_scrollIndex_binary64 False (scrollLeft env) p
                       (scrollWidth env - clientWidth env) (AmenitiesCarousel_maxIndex s)
                       (totalCards s)
      in if newIndex \<noteq> currentIndex s
         then Normal (AmenitiesCarousel_updateUI (s\<lparr>currentIndex := newIndex\<rparr>))
         else Normal s)"
  using assms
  by (simp add: AmenitiesCarousel_syncWithScroll_binary64_def spec_scrollIndex_binary64_def
                clamp_def AmenitiesCarousel_maxIndex_def Let_def)

lemma AmenitiesCarousel_inv_syncWithScroll_binary64:
  assumes "AmenitiesCarousel_inv s"
  shows "AmenitiesCarousel_inv (state_of (AmenitiesCarousel_syncWithScroll_binary64 env s))"
proof (cases "isScrolling s")
  case True
  with assms show ?thesis by (simp add: AmenitiesCarousel_syncWithScroll_binary64_def)
next
  case idle: False
  from assms have M: "0 \<le> AmenitiesCarousel_maxIndex s"
    by (simp add: AmenitiesCarousel_inv_def)
  have narrow: "isMobile s \<longrightarrow> AmenitiesCarousel_maxIndex s = int (totalCards s) - 1"
    by (simp add: AmenitiesCarousel_maxIndex_def)
  have step: "AmenitiesCarousel_inv
     (s\<lparr>currentIndex := spec_scrollIndex_binary64 (isMobile s) x p ms
                           (AmenitiesCarousel_maxIndex s) (totalCards s)\<rparr>)" for x p ms
    using spec_scrollIndex_binary64_range [OF M narrow] assms
    by (simp add: AmenitiesCarousel_inv_index)
  show ?thesis
  proof (cases "isMobile s")
    case False
    with step [of "scrollLeft env" 0 "scrollWidth env - clientWidth env"] assms show ?thesis
      by (simp add: AmenitiesCarousel_syncWithScroll_binary64_wide [OF idle False, of env 0]
                    Let_def AmenitiesCarousel_inv_updateUI)
  next
    case True
    show ?thesis
    proof (cases "cardWidths env")
      case Nil
      with idle True assms show ?thesis
        by (simp add: AmenitiesCarousel_syncWithScroll_binary64_def)
    next
      case (Cons w ws)
      with step [of "scrollLeft env" "int w + 20" "scrollWidth env - clientWidth env"] assms
      show ?thesis
        by (simp add: AmenitiesCarousel_syncWithScroll_binary64_idle [OF idle Cons] Let_def
                      AmenitiesCarousel_inv_updateUI)
    qed
  qed
qed

lemma AmenitiesCarousel_inv_swipe:
  "AmenitiesCarousel_inv (s\<lparr>swipe := v\<rparr>) = AmenitiesCarousel_inv s"
  by (rule AmenitiesCarousel_inv_cong) simp_all

lemma AmenitiesCarousel_inv_touchstart:
  "AmenitiesCarousel_inv (AmenitiesCarousel_touchstart x y s) = AmenitiesCarousel_inv s"
  by (simp add: AmenitiesCarousel_touchstart_def AmenitiesCarousel_inv_swipe)

lemma AmenitiesCarousel_inv_touchmove:
  "AmenitiesCarousel_inv (AmenitiesCarousel_touchmove x y s) = AmenitiesCarousel_inv s"
  by (simp add: AmenitiesCarousel_touchmove_def Let_def AmenitiesCarousel_inv_swipe)

lemma AmenitiesCarousel_inv_touchend:
  assumes "AmenitiesCarousel_inv s"
  shows "AmenitiesCarousel_inv (state_of (AmenitiesCarousel_touchend x env s))"
  using assms AmenitiesCarousel_inv_goToNext [OF assms, of env]
        AmenitiesCarousel_inv_goToPrevious [OF assms, of env]
  by (simp add: AmenitiesCarousel_touchend_def Let_def state_of_and_then_Normal
                AmenitiesCarousel_inv_swipe)

lemma AmenitiesCarousel_inv_resize:
  assumes "AmenitiesCarousel_inv s"
  shows "AmenitiesCarousel_inv (state_of (AmenitiesCarousel_resize env s))"
proof (cases "isMobile s = (innerWidth env \<le> 768)")
  case True
  have "AmenitiesCarousel_inv (s\<lparr>isMobile := (innerWidth env \<le> 768)\<rparr>) =
        AmenitiesCarousel_inv s"
    by (rule AmenitiesCarousel_inv_cong) (use True in simp_all)
  with True assms show ?thesis
    by (simp add: AmenitiesCarousel_resize_def Let_def)
next
  case False
  from assms have "AmenitiesCarousel_inv
      (s\<lparr>isMobile := (innerWidth env \<le> 768), currentIndex := 0\<rparr>)"
    by (simp add: AmenitiesCarousel_inv_def AmenitiesCarousel_maxIndex_def)
  with False show ?thesis
    by (simp add: AmenitiesCarousel_resize_def Let_def AmenitiesCarousel_inv_updateCarousel)
qed

lemma AmenitiesCarousel_inv_fireTimers:
  "AmenitiesCarousel_inv (AmenitiesCarousel_fireTimers t s) = AmenitiesCarousel_inv s"
  by (rule AmenitiesCarousel_inv_cong) (simp_all add: AmenitiesCarousel_fireTimers_fields)

lemma AmenitiesCarousel_inv_listener:
  assumes "AmenitiesCarousel_inv s"
  shows "AmenitiesCarousel_inv (state_of (AmenitiesCarousel_listener ev env s))"
proof (cases ev)
  case (Click tg)
  with assms AmenitiesCarousel_inv_goToNext AmenitiesCarousel_inv_goToPrevious
  show ?thesis by (cases tg) simp_all
next
  case (Scroll tg)
  with assms AmenitiesCarousel_inv_syncWithScroll_binary64 show ?thesis by (cases tg) simp_all
next
  case (TouchStart tg x y)
  with assms show ?thesis by (cases tg) (simp_all add: AmenitiesCarousel_inv_touchstart)
next
  case (TouchMove tg x y)
  with assms show ?thesis by (cases tg) (simp_all add: AmenitiesCarousel_inv_touchmove)
next
  case (TouchEnd tg x)
  with assms AmenitiesCarousel_inv_touchend show ?thesis by (cases tg) simp_all
next
  case (KeyDown key)
  with assms show ?thesis by simp
next
  case Resize
  with assms AmenitiesCarousel_inv_resize show ?thesis by simp
qed

lemma AmenitiesCarousel_inv_step:
  assumes "AmenitiesCarousel_inv s"
  shows "AmenitiesCarousel_inv (AmenitiesCarousel_step p s)"
  using assms AmenitiesCarousel_inv_listener [of "AmenitiesCarousel_fireTimers (now (snd p)) s"]
  by (simp add: AmenitiesCarousel_step_def AmenitiesCarousel_dispatch_def
                AmenitiesCarousel_inv_fireTimers)

lemma AmenitiesCarousel_inv_run:
  "AmenitiesCarousel_inv s \<Longrightarrow> AmenitiesCarousel_inv (AmenitiesCarousel_run evs s)"
  by (induction evs arbitrary: s) (simp_all add: AmenitiesCarousel_inv_step)

lemma AmenitiesCarousel_inv_constructor:
  assumes "1 \<le> length (cardWidths env)"
  shows "AmenitiesCarousel_inv
           (state_of (AmenitiesCarousel_constructor True leftEl rightEl env))"
proof -
  have "AmenitiesCarousel_inv
          \<lparr>carousel = True, leftArrow = leftEl, rightArrow = rightEl,
           currentIndex = 0, isScrolling = False, isMobile = (innerWidth env \<le> 768),
           swipe = \<lparr>startX = 0, startY = 0, currentX = 0, currentY = 0,
                    isDragging = False, isHorizontalSwipe = False\<rparr>,
           timers = [], calls = [],
           totalCards = length (cardWidths env)\<rparr>"
    using assms
    by (cases "cardWidths env")
       (simp_all add: AmenitiesCarousel_inv_def AmenitiesCarousel_maxIndex_def)
  then show ?thesis
    by (simp add: AmenitiesCarousel_constructor_def AmenitiesCarousel_init_def
                  AmenitiesCarousel_inv_updateCarousel)
qed

text \<open>
  Claim C2, as amended. Take a rooms carousel constructed over at least two cards with
  its indicator container present, and an amenities carousel constructed over at least one
  card. After the constructor and after each event of every sequence of events delivered
  to the registered listeners (arrow clicks, indicator clicks, scroll, touch, key and
  resize events, each preceded by the timers that are due, each read against any
  document), \<open>0 \<le> currentIndex \<le> maxIndex\<close> holds, where \<open>maxIndex\<close> is the bound the
  code computes. In such a sequence \<open>goToSlide\<close> is called by indicator clicks only,
  with the index of the clicked indicator.
\<close>

theorem C2_index_in_range:
  assumes "2 \<le> length (cardWidths envR)" and "1 \<le> length (cardWidths envA)"
  shows
    "0 \<le> currentIndex (RoomsCarousel_run evsR
            (state_of (RoomsCarousel_constructor True leftR rightR (Some ds) envR))) \<and>
     currentIndex (RoomsCarousel_run evsR
            (state_of (RoomsCarousel_constructor True leftR rightR (Some ds) envR)))
       \<le> RoomsCarousel_maxIndex (RoomsCarousel_run evsR
            (state_of (RoomsCarousel_constructor True leftR rightR (Some ds) envR))) \<and>
     0 \<le> currentIndex (AmenitiesCarousel_run evsA
            (state_of (AmenitiesCarousel_constructor True leftA rightA envA))) \<and>
     currentIndex (AmenitiesCarousel_run evsA
            (state_of (AmenitiesCarousel_constructor True leftA rightA envA)))
       \<le> AmenitiesCarousel_maxIndex (AmenitiesCarousel_run evsA
            (state_of (AmenitiesCarousel_constructor True leftA rightA envA)))"
proof -
  have "RoomsCarousel_inv (RoomsCarousel_run evsR
            (state_of (RoomsCarousel_constructor True leftR rightR (Some ds) envR)))"
    by (intro RoomsCarousel_inv_run RoomsCarousel_inv_constructor assms(1))
  moreover have "AmenitiesCarousel_inv (AmenitiesCarousel_run evsA
            (state_of (AmenitiesCarousel_constructor True leftA rightA envA)))"
    by (intro AmenitiesCarousel_inv_run AmenitiesCarousel_inv_constructor assms(2))
  ultimately show ?thesis
    by (simp add: RoomsCarousel_inv_def AmenitiesCarousel_inv_def)
qed

text \<open>The theorem for the sample sessions on the wide documents.\<close>

theorem C2_index_in_range_witness:
  "2 \<le> length (cardWidths wide_dom) \<and> 1 \<le> length (cardWidths wide_dom) \<and>
   0 \<le> currentIndex (RoomsCarousel_run rooms_session
          (state_of (RoomsCarousel_constructor True (Some False) (Some False) (Some []) wide_dom))) \<and>
   currentIndex (RoomsCarousel_run rooms_session
          (state_of (RoomsCarousel_constructor True (Some False) (Some False) (Some []) wide_dom)))
     \<le> RoomsCarousel_maxIndex (RoomsCarousel_run rooms_session
          (state_of (RoomsCarousel_constructor True (Some False) (Some False) (Some []) wide_dom))) \<and>
   0 \<le> currentIndex (AmenitiesCarousel_run amenities_session
          (state_of (AmenitiesCarousel_constructor True (Some False) (Some False) wide_dom))) \<and>
   currentIndex (AmenitiesCarousel_run amenities_session
          (state_of (AmenitiesCarousel_constructor True (Some False) (Some False) wide_dom)))
     \<le> AmenitiesCarousel_maxIndex (AmenitiesCarousel_run amenities_session
          (state_of (AmenitiesCarousel_constructor True (Some False) (Some False) wide_dom)))"
proof -
  have two: "2 \<le> length (cardWidths wide_dom)" by (simp add: wide_dom_def)
  have one: "1 \<le> length (cardWidths wide_dom)" by (simp add: wide_dom_def)
  from C2_index_in_range [OF two one, of rooms_session "Some False" "Some False" "[]"
         amenities_session "Some False" "Some False"] two one
  show ?thesis by blast
qed

text \<open>
  Claim C2 as stated fails. On the narrow sample (\<open>maxIndex = 2\<close>) \<open>goToSlide(5)\<close>
  leaves the index at 5 and \<open>goToSlide(-2)\<close> at -2. Over a single card in wide mode
  the constructor leaves the index at 0 with \<open>maxIndex = -1\<close>. In a page without
  \<open>#carouselDots\<close>, two clicks on the next-control in narrow mode and a resize to the
  wide window leave the index at 2 with \<open>maxIndex = 1\<close>: the resize listener throws
  before it resets the index.
\<close>

theorem C2_index_leaves_range:
  "currentIndex (state_of (RoomsCarousel_goToSlide 5 narrow_dom rooms_narrow)) = 5 \<and>
   RoomsCarousel_maxIndex (state_of (RoomsCarousel_goToSlide 5 narrow_dom rooms_narrow)) = 2 \<and>
   currentIndex (state_of (RoomsCarousel_goToSlide (- 2) narrow_dom rooms_narrow)) = - 2 \<and>
   currentIndex (state_of
      (RoomsCarousel_constructor True (Some False) (Some False) (Some []) one_card_dom)) = 0 \<and>
   RoomsCarousel_maxIndex (state_of
      (RoomsCarousel_constructor True (Some False) (Some False) (Some []) one_card_dom)) = - 1 \<and>
   currentIndex (RoomsCarousel_run
      [(Click RoomsRightArrow, narrow_dom_at 1000), (Click RoomsRightArrow, narrow_dom_at 2000),
       (Resize, wide_dom_at 3000)] rooms_narrow_nodots) = 2 \<and>
   RoomsCarousel_maxIndex (RoomsCarousel_run
      [(Click RoomsRightArrow, narrow_dom_at 1000), (Click RoomsRightArrow, narrow_dom_at 2000),
       (Resize, wide_dom_at 3000)] rooms_narrow_nodots) = 1"
  by code_simp

end
